theory Spec2Isabelle
  imports Main "HOL-Library.Sublist"
begin

section \<open>Errors and dynamic values\<close>

text \<open>
  A Go \<^verbatim>\<open>error\<close> is modelled by its message and the error it wraps.
  \<^verbatim>\<open>fmt.Errorf\<close> without \<^verbatim>\<open>%w\<close> builds an \<open>ErrorString\<close>; with
  \<^verbatim>\<open>%w\<close> it builds a \<open>WrapError\<close> whose message is the formatted text
  (the wrapped error's message substituted for \<^verbatim>\<open>%w\<close>) and whose
  \<^verbatim>\<open>Unwrap()\<close> is the wrapped error.
\<close>

datatype go_error = ErrorString string | WrapError string go_error

fun Error :: "go_error \<Rightarrow> string" where
  "Error (ErrorString s) = s"
| "Error (WrapError s e) = s"

fun Unwrap :: "go_error \<Rightarrow> go_error option" where
  "Unwrap (ErrorString s) = None"
| "Unwrap (WrapError s e) = Some e"

text \<open>
  \<^verbatim>\<open>fmt.Errorf(text + "%w", err)\<close>: every wrapping format string of the
  program ends in \<^verbatim>\<open>%w\<close>.
\<close>

definition Errorf_w :: "string \<Rightarrow> go_error \<Rightarrow> go_error" where
  "Errorf_w text err = WrapError (text @ Error err) err"

text \<open>
  The dynamic values an \<^verbatim>\<open>interface{}\<close> holds in this program: nil, booleans,
  integers, strings, slices and string-keyed maps. \<open>VFloat64\<close> is a
  \<^verbatim>\<open>float64\<close> with an integral value, which is what the JSON decoder stores
  for a number (fractional and non-finite floats are not modelled). \<open>VChan\<close>
  stands for the values \<^verbatim>\<open>encoding/json\<close> refuses to encode (channels,
  functions, complex numbers). A Go map is represented by the list of its
  entries in ascending key order, the order in which \<^verbatim>\<open>encoding/json\<close>
  writes them; the keys are the map's own, and the encoder writes them as it
  writes every string.
\<close>

datatype go_value =
    VNil
  | VBool bool
  | VInt int
  | VFloat64 int
  | VString string
  | VSlice "go_value list"
  | VMap "(string \<times> go_value) list"
  | VChan

section \<open>Strings and UTF-8\<close>

text \<open>
  A Go string is a sequence of bytes. \<^verbatim>\<open>encoding/json\<close> writes a string
  rune by rune: where \<^verbatim>\<open>utf8.DecodeRuneInString\<close> reports an encoding error
  (\<^verbatim>\<open>RuneError\<close> of size 1) it writes U+FFFD, the bytes EF BF BD, in place of
  that one byte and goes on at the next byte. \<open>rune_size\<close> is the size of the
  rune at the head of a string as \<^verbatim>\<open>DecodeRuneInString\<close> reports it, and 0
  where it reports the error: one byte below 80; C2..DF and a continuation byte;
  E0..EF and two more bytes, the first in A0..BF after E0 and in 80..9F after
  ED; F0..F4 and three more bytes, the first in 90..BF after F0 and in 80..8F
  after F4.
\<close>

definition continuation :: "char \<Rightarrow> bool" where
  "continuation c \<longleftrightarrow> (0x80::nat) \<le> of_char c \<and> of_char c \<le> (0xBF::nat)"

fun rune_size :: "string \<Rightarrow> nat" where
  "rune_size [] = 0"
| "rune_size (b # bs) =
     (let n = (of_char b :: nat) in
      if n < 0x80 then 1
      else if 0xC2 \<le> n \<and> n \<le> 0xDF then
        (case bs of c1 # _ \<Rightarrow> if continuation c1 then 2 else 0 | _ \<Rightarrow> 0)
      else if 0xE0 \<le> n \<and> n \<le> 0xEF then
        (case bs of
           c1 # c2 # _ \<Rightarrow>
             if (if n = 0xE0 then (0xA0::nat) else 0x80) \<le> of_char c1
                \<and> of_char c1 \<le> (if n = 0xED then (0x9F::nat) else 0xBF)
                \<and> continuation c2
             then 3 else 0
         | _ \<Rightarrow> 0)
      else if 0xF0 \<le> n \<and> n \<le> 0xF4 then
        (case bs of
           c1 # c2 # c3 # _ \<Rightarrow>
             if (if n = 0xF0 then (0x90::nat) else 0x80) \<le> of_char c1
                \<and> of_char c1 \<le> (if n = 0xF4 then (0x8F::nat) else 0xBF)
                \<and> continuation c2 \<and> continuation c3
             then 4 else 0
         | _ \<Rightarrow> 0)
      else 0)"

definition replacement :: string where
  "replacement = [CHR 0xEF, CHR 0xBF, CHR 0xBD]"

text \<open>
  The string as the encoder writes it and the decoder reads it back. The first
  argument counts the bytes of the current rune still to be copied.
\<close>

fun coerce_from :: "nat \<Rightarrow> string \<Rightarrow> string" where
  "coerce_from k [] = []"
| "coerce_from (Suc k) (b # bs) = b # coerce_from k bs"
| "coerce_from 0 (b # bs) =
     (if rune_size (b # bs) = 0 then replacement @ coerce_from 0 bs
      else b # coerce_from (rune_size (b # bs) - 1) bs)"

definition coerce_utf8 :: "string \<Rightarrow> string" where
  "coerce_utf8 s = coerce_from 0 s"

text \<open>\<^verbatim>\<open>utf8.ValidString\<close>: every rune of the string decodes without error.\<close>

fun valid_from :: "nat \<Rightarrow> string \<Rightarrow> bool" where
  "valid_from k [] = True"
| "valid_from (Suc k) (b # bs) = valid_from k bs"
| "valid_from 0 (b # bs) =
     (rune_size (b # bs) \<noteq> 0 \<and> valid_from (rune_size (b # bs) - 1) bs)"

definition ValidString :: "string \<Rightarrow> bool" where
  "ValidString s = valid_from 0 s"

section \<open>pkg/utcp: the manual\<close>

subsection \<open>Data\<close>

record Property =
  Type :: string
  Description :: string
  Enum :: "string list"
  Default :: go_value

record Schema =
  Type :: string
  Properties :: "(string \<times> Property) list"
  Required :: "string list"
  Description :: string
  Title :: string

text \<open>
  \<open>ToolProvider\<close> is a map without \<^verbatim>\<open>omitempty\<close>: the nil map (\<open>None\<close>)
  and the empty map encode differently.
\<close>

record Tool =
  Name :: string
  Description :: string
  Inputs :: Schema
  Outputs :: Schema
  Tags :: "string list"
  AverageResponseSize :: int
  ToolProvider :: "(string \<times> go_value) list option"

text \<open>\<open>Tools\<close> is a slice without \<^verbatim>\<open>omitempty\<close>: \<open>None\<close> is the nil slice.\<close>

record Manual =
  Version :: string
  Tools :: "Tool list option"

definition NewManual :: Manual where
  "NewManual = \<lparr>Version = ''0.1.0'', Tools = Some []\<rparr>"

text \<open>\<^verbatim>\<open>append\<close> on the nil slice allocates a one-element slice.\<close>

definition AddTool :: "Tool \<Rightarrow> Manual \<Rightarrow> Manual" where
  "AddTool tool m =
     m\<lparr>Tools := Some ((case Tools m of None \<Rightarrow> [] | Some ts \<Rightarrow> ts) @ [tool])\<rparr>"

subsection \<open>JSON encoding\<close>

text \<open>
  \<open>ToJSON\<close> calls \<^verbatim>\<open>json.MarshalIndent\<close>, which is driven by the struct tags
  above. The model follows \<^verbatim>\<open>encoding/json\<close> up to the JSON document: a
  struct becomes an object with its tagged keys in field order, a field tagged
  \<^verbatim>\<open>omitempty\<close> is left out when it is empty (a string, slice or map of
  length 0, the integer 0, a nil interface value), a nil slice or map without
  \<^verbatim>\<open>omitempty\<close> becomes \<^verbatim>\<open>null\<close>, and a value the library cannot encode
  makes the whole call fail. Every string, a map key too, is written with the
  bytes that are not valid UTF-8 replaced by U+FFFD (\<open>coerce_utf8\<close>).
  \<^verbatim>\<open>MarshalIndent\<close> then indents the encoded text, and the scanner it uses for
  that refuses a text whose arrays and objects nest deeper than 10000: the call
  fails. The document is kept as a value of type \<open>json\<close>, holding the strings
  as they are read back from the text: the layout of the text (the two-space
  indentation, the escape sequences) is the library's and is not modelled.
\<close>

datatype json =
    JNull
  | JBool bool
  | JNum int
  | JString string
  | JArray "json list"
  | JObject "(string \<times> json) list"

definition bind_res :: "'e + 'a \<Rightarrow> ('a \<Rightarrow> 'e + 'b) \<Rightarrow> 'e + 'b" where
  "bind_res x f = (case x of Inl e \<Rightarrow> Inl e | Inr a \<Rightarrow> f a)"

fun map_res :: "('a \<Rightarrow> 'e + 'b) \<Rightarrow> 'a list \<Rightarrow> 'e + 'b list" where
  "map_res f [] = Inr []"
| "map_res f (x # xs) = bind_res (f x) (\<lambda>y. bind_res (map_res f xs) (\<lambda>ys. Inr (y # ys)))"

fun marshal_value :: "go_value \<Rightarrow> go_error + json"
  and marshal_values :: "go_value list \<Rightarrow> go_error + json list"
  and marshal_entries :: "(string \<times> go_value) list \<Rightarrow> go_error + (string \<times> json) list" where
  "marshal_value VNil = Inr JNull"
| "marshal_value (VBool b) = Inr (JBool b)"
| "marshal_value (VInt n) = Inr (JNum n)"
| "marshal_value (VFloat64 n) = Inr (JNum n)"
| "marshal_value (VString s) = Inr (JString (coerce_utf8 s))"
| "marshal_value (VSlice vs) = bind_res (marshal_values vs) (\<lambda>js. Inr (JArray js))"
| "marshal_value (VMap es) = bind_res (marshal_entries es) (\<lambda>ms. Inr (JObject ms))"
| "marshal_value VChan = Inl (ErrorString ''json: unsupported type'')"
| "marshal_values [] = Inr []"
| "marshal_values (v # vs) =
     bind_res (marshal_value v) (\<lambda>j. bind_res (marshal_values vs) (\<lambda>js. Inr (j # js)))"
| "marshal_entries [] = Inr []"
| "marshal_entries ((k, v) # es) =
     bind_res (marshal_value v) (\<lambda>j.
       bind_res (marshal_entries es) (\<lambda>ms. Inr ((coerce_utf8 k, j) # ms)))"

definition marshal_string :: "string \<Rightarrow> json" where
  "marshal_string s = JString (coerce_utf8 s)"

definition marshal_strings :: "string list \<Rightarrow> json" where
  "marshal_strings xs = JArray (map marshal_string xs)"

text \<open>The member of a field tagged \<^verbatim>\<open>omitempty\<close>: none when the field is empty.\<close>

definition omitempty :: "bool \<Rightarrow> string \<Rightarrow> json \<Rightarrow> (string \<times> json) list" where
  "omitempty is_empty k j = (if is_empty then [] else [(k, j)])"

text \<open>
  \<open>Default\<close> has the type \<^verbatim>\<open>interface{}\<close>: it is empty only when it is nil. A
  default of \<^verbatim>\<open>false\<close>, \<^verbatim>\<open>0\<close> or \<^verbatim>\<open>""\<close> is a non-nil interface value.
\<close>

definition marshal_Property :: "Property \<Rightarrow> go_error + json" where
  "marshal_Property p =
     bind_res (marshal_value (Default p)) (\<lambda>d.
       Inr (JObject
         ([(''type'', marshal_string (Property.Type p)),
           (''description'', marshal_string (Property.Description p))]
          @ omitempty (Enum p = []) ''enum'' (marshal_strings (Enum p))
          @ omitempty (Default p = VNil) ''default'' d)))"

fun marshal_Properties :: "(string \<times> Property) list \<Rightarrow> go_error + (string \<times> json) list" where
  "marshal_Properties [] = Inr []"
| "marshal_Properties ((k, p) # ps) =
     bind_res (marshal_Property p) (\<lambda>j.
       bind_res (marshal_Properties ps) (\<lambda>ms. Inr ((coerce_utf8 k, j) # ms)))"

definition marshal_Schema :: "Schema \<Rightarrow> go_error + json" where
  "marshal_Schema s =
     bind_res (marshal_Properties (Properties s)) (\<lambda>ps.
       Inr (JObject
         ([(''type'', marshal_string (Schema.Type s))]
          @ omitempty (Properties s = []) ''properties'' (JObject ps)
          @ omitempty (Required s = []) ''required'' (marshal_strings (Required s))
          @ omitempty (Schema.Description s = []) ''description''
              (marshal_string (Schema.Description s))
          @ omitempty (Title s = []) ''title'' (marshal_string (Title s)))))"

definition marshal_ToolProvider :: "(string \<times> go_value) list option \<Rightarrow> go_error + json" where
  "marshal_ToolProvider tp =
     (case tp of
        None \<Rightarrow> Inr JNull
      | Some es \<Rightarrow> bind_res (marshal_entries es) (\<lambda>ms. Inr (JObject ms)))"

definition marshal_Tool :: "Tool \<Rightarrow> go_error + json" where
  "marshal_Tool t =
     bind_res (marshal_Schema (Inputs t)) (\<lambda>ins.
     bind_res (marshal_Schema (Outputs t)) (\<lambda>outs.
     bind_res (marshal_ToolProvider (ToolProvider t)) (\<lambda>tp.
       Inr (JObject
         ([(''name'', marshal_string (Tool.Name t)),
           (''description'', marshal_string (Tool.Description t)),
           (''inputs'', ins),
           (''outputs'', outs)]
          @ omitempty (Tags t = []) ''tags'' (marshal_strings (Tags t))
          @ omitempty (AverageResponseSize t = 0) ''average_response_size''
              (JNum (AverageResponseSize t))
          @ [(''tool_provider'', tp)])))))"

definition marshal_Tools :: "Tool list option \<Rightarrow> go_error + json" where
  "marshal_Tools tools =
     (case tools of
        None \<Rightarrow> Inr JNull
      | Some ts \<Rightarrow> bind_res (map_res marshal_Tool ts) (\<lambda>js. Inr (JArray js)))"

definition marshal_Manual :: "Manual \<Rightarrow> go_error + json" where
  "marshal_Manual m =
     bind_res (marshal_Tools (Tools m)) (\<lambda>ts.
       Inr (JObject [(''version'', marshal_string (Version m)), (''tools'', ts)]))"

text \<open>
  The depth to which the arrays and objects of a document nest, and the limit
  \<^verbatim>\<open>maxNestingDepth\<close> of the library's scanner.
\<close>

fun json_depth :: "json \<Rightarrow> nat"
  and json_depths :: "json list \<Rightarrow> nat"
  and member_depths :: "(string \<times> json) list \<Rightarrow> nat" where
  "json_depth JNull = 0"
| "json_depth (JBool b) = 0"
| "json_depth (JNum n) = 0"
| "json_depth (JString s) = 0"
| "json_depth (JArray js) = Suc (json_depths js)"
| "json_depth (JObject ms) = Suc (member_depths ms)"
| "json_depths [] = 0"
| "json_depths (j # js) = max (json_depth j) (json_depths js)"
| "member_depths [] = 0"
| "member_depths ((k, j) # ms) = max (json_depth j) (member_depths ms)"

definition maxNestingDepth :: nat where
  "maxNestingDepth = 10000"

text \<open>The scanner's syntax error; its message ends in these words.\<close>

definition exceeded_max_depth :: go_error where
  "exceeded_max_depth = ErrorString ''exceeded max depth''"

text \<open>
  \<open>ToJSON\<close> returns the document, or the error of \<^verbatim>\<open>MarshalIndent\<close>: the
  encoder's, or the scanner's when the encoded text nests too deep.
\<close>

definition MarshalIndent :: "Manual \<Rightarrow> go_error + json" where
  "MarshalIndent m =
     bind_res (marshal_Manual m) (\<lambda>b.
       if json_depth b \<le> maxNestingDepth then Inr b else Inl exceeded_max_depth)"

definition ToJSON :: "Manual \<Rightarrow> go_error + json" where
  "ToJSON m =
     (case MarshalIndent m of
        Inl err \<Rightarrow> Inl err
      | Inr data \<Rightarrow> Inr data)"

text \<open>
  Reading a document: the member under a key of an object, the element at an
  index of an array, and the value at the end of a path of such steps.
\<close>

datatype step = Key string | Index nat

fun json_at :: "step list \<Rightarrow> json \<Rightarrow> json option" where
  "json_at [] j = Some j"
| "json_at (Key k # path) (JObject ms) =
     (case map_of ms k of None \<Rightarrow> None | Some j \<Rightarrow> json_at path j)"
| "json_at (Index i # path) (JArray js) =
     (if i < length js then json_at path (js ! i) else None)"
| "json_at (s # path) j = None"

subsection \<open>JSON decoding\<close>

text \<open>
  \<^verbatim>\<open>json.Unmarshal\<close> into a fresh \<open>Manual\<close>, from the document. The call
  first scans the text and fails when it nests deeper than the limit. A member
  whose key matches no field is skipped; an absent key and a \<^verbatim>\<open>null\<close> both
  leave the field at its zero value, so \<open>member\<close> reads an absent key as
  \<^verbatim>\<open>null\<close>; a value of the wrong JSON kind for its field is an error. A number
  decoded into an \<^verbatim>\<open>interface{}\<close> becomes a \<^verbatim>\<open>float64\<close>. The decoder is
  modelled for objects whose keys do not repeat, as are the objects the encoder
  writes for a struct.
\<close>

definition member :: "string \<Rightarrow> (string \<times> json) list \<Rightarrow> json" where
  "member k ms = (case map_of ms k of None \<Rightarrow> JNull | Some j \<Rightarrow> j)"

definition unmarshal_error :: "string \<Rightarrow> go_error" where
  "unmarshal_error ty = ErrorString (''json: cannot unmarshal into Go value of type '' @ ty)"

fun unmarshal_value :: "json \<Rightarrow> go_value"
  and unmarshal_values :: "json list \<Rightarrow> go_value list"
  and unmarshal_entries :: "(string \<times> json) list \<Rightarrow> (string \<times> go_value) list" where
  "unmarshal_value JNull = VNil"
| "unmarshal_value (JBool b) = VBool b"
| "unmarshal_value (JNum n) = VFloat64 n"
| "unmarshal_value (JString s) = VString s"
| "unmarshal_value (JArray js) = VSlice (unmarshal_values js)"
| "unmarshal_value (JObject ms) = VMap (unmarshal_entries ms)"
| "unmarshal_values [] = []"
| "unmarshal_values (j # js) = unmarshal_value j # unmarshal_values js"
| "unmarshal_entries [] = []"
| "unmarshal_entries ((k, j) # ms) = (k, unmarshal_value j) # unmarshal_entries ms"

fun unmarshal_string :: "json \<Rightarrow> go_error + string" where
  "unmarshal_string JNull = Inr []"
| "unmarshal_string (JString s) = Inr s"
| "unmarshal_string j = Inl (unmarshal_error ''string'')"

fun unmarshal_int :: "json \<Rightarrow> go_error + int" where
  "unmarshal_int JNull = Inr 0"
| "unmarshal_int (JNum n) = Inr n"
| "unmarshal_int j = Inl (unmarshal_error ''int'')"

fun unmarshal_strings :: "json \<Rightarrow> go_error + string list" where
  "unmarshal_strings JNull = Inr []"
| "unmarshal_strings (JArray js) = map_res unmarshal_string js"
| "unmarshal_strings j = Inl (unmarshal_error ''[]string'')"

fun unmarshal_Property :: "json \<Rightarrow> go_error + Property" where
  "unmarshal_Property JNull =
     Inr \<lparr>Property.Type = [], Description = [], Enum = [], Default = VNil\<rparr>"
| "unmarshal_Property (JObject ms) =
     bind_res (unmarshal_string (member ''type'' ms)) (\<lambda>t.
     bind_res (unmarshal_string (member ''description'' ms)) (\<lambda>d.
     bind_res (unmarshal_strings (member ''enum'' ms)) (\<lambda>e.
       Inr \<lparr>Property.Type = t, Description = d, Enum = e,
            Default = unmarshal_value (member ''default'' ms)\<rparr>)))"
| "unmarshal_Property j = Inl (unmarshal_error ''utcp.Property'')"

fun unmarshal_Properties :: "json \<Rightarrow> go_error + (string \<times> Property) list" where
  "unmarshal_Properties JNull = Inr []"
| "unmarshal_Properties (JObject ms) =
     map_res (\<lambda>(k, j). bind_res (unmarshal_Property j) (\<lambda>p. Inr (k, p))) ms"
| "unmarshal_Properties j = Inl (unmarshal_error ''map[string]utcp.Property'')"

fun unmarshal_Schema :: "json \<Rightarrow> go_error + Schema" where
  "unmarshal_Schema JNull =
     Inr \<lparr>Schema.Type = [], Properties = [], Required = [], Description = [], Title = []\<rparr>"
| "unmarshal_Schema (JObject ms) =
     bind_res (unmarshal_string (member ''type'' ms)) (\<lambda>t.
     bind_res (unmarshal_Properties (member ''properties'' ms)) (\<lambda>ps.
     bind_res (unmarshal_strings (member ''required'' ms)) (\<lambda>r.
     bind_res (unmarshal_string (member ''description'' ms)) (\<lambda>d.
     bind_res (unmarshal_string (member ''title'' ms)) (\<lambda>ti.
       Inr \<lparr>Schema.Type = t, Properties = ps, Required = r, Description = d, Title = ti\<rparr>)))))"
| "unmarshal_Schema j = Inl (unmarshal_error ''utcp.Schema'')"

fun unmarshal_ToolProvider :: "json \<Rightarrow> go_error + (string \<times> go_value) list option" where
  "unmarshal_ToolProvider JNull = Inr None"
| "unmarshal_ToolProvider (JObject ms) = Inr (Some (unmarshal_entries ms))"
| "unmarshal_ToolProvider j = Inl (unmarshal_error ''map[string]interface {}'')"

fun unmarshal_Tool :: "json \<Rightarrow> go_error + Tool" where
  "unmarshal_Tool JNull =
     Inr \<lparr>Tool.Name = [], Description = [],
          Inputs = \<lparr>Schema.Type = [], Properties = [], Required = [], Description = [], Title = []\<rparr>,
          Outputs = \<lparr>Schema.Type = [], Properties = [], Required = [], Description = [], Title = []\<rparr>,
          Tags = [], AverageResponseSize = 0, ToolProvider = None\<rparr>"
| "unmarshal_Tool (JObject ms) =
     bind_res (unmarshal_string (member ''name'' ms)) (\<lambda>n.
     bind_res (unmarshal_string (member ''description'' ms)) (\<lambda>d.
     bind_res (unmarshal_Schema (member ''inputs'' ms)) (\<lambda>ins.
     bind_res (unmarshal_Schema (member ''outputs'' ms)) (\<lambda>outs.
     bind_res (unmarshal_strings (member ''tags'' ms)) (\<lambda>tags.
     bind_res (unmarshal_int (member ''average_response_size'' ms)) (\<lambda>size.
     bind_res (unmarshal_ToolProvider (member ''tool_provider'' ms)) (\<lambda>tp.
       Inr \<lparr>Tool.Name = n, Description = d, Inputs = ins, Outputs = outs, Tags = tags,
            AverageResponseSize = size, ToolProvider = tp\<rparr>)))))))"
| "unmarshal_Tool j = Inl (unmarshal_error ''utcp.Tool'')"

fun unmarshal_Tools :: "json \<Rightarrow> go_error + Tool list option" where
  "unmarshal_Tools JNull = Inr None"
| "unmarshal_Tools (JArray js) = bind_res (map_res unmarshal_Tool js) (\<lambda>ts. Inr (Some ts))"
| "unmarshal_Tools j = Inl (unmarshal_error ''[]utcp.Tool'')"

fun unmarshal_Manual :: "json \<Rightarrow> go_error + Manual" where
  "unmarshal_Manual JNull = Inr \<lparr>Version = [], Tools = None\<rparr>"
| "unmarshal_Manual (JObject ms) =
     bind_res (unmarshal_string (member ''version'' ms)) (\<lambda>v.
     bind_res (unmarshal_Tools (member ''tools'' ms)) (\<lambda>ts.
       Inr \<lparr>Version = v, Tools = ts\<rparr>))"
| "unmarshal_Manual j = Inl (unmarshal_error ''utcp.Manual'')"

definition Unmarshal :: "json \<Rightarrow> go_error + Manual" where
  "Unmarshal data =
     (if json_depth data \<le> maxNestingDepth then unmarshal_Manual data
      else Inl exceeded_max_depth)"

text \<open>The names of a manual's tools, in order.\<close>

definition tool_names :: "Manual \<Rightarrow> string list" where
  "tool_names m = map Tool.Name (case Tools m of None \<Rightarrow> [] | Some ts \<Rightarrow> ts)"

section \<open>internal/providers: the registry\<close>

text \<open>
  A \<open>Provider\<close> is an implementation of the interface, given by what its four
  methods return. A \<open>Factory\<close> returns a provider or an error; it reads the
  configuration map it is given. The nil interface value, a nil factory and a
  factory that writes to the map are outside the model.
\<close>

record Provider =
  GetTools :: "Tool list"
  GetName :: string
  GetType :: string
  IsEnabled :: bool

type_synonym config_map = "string \<rightharpoonup> go_value"

type_synonym Factory = "config_map \<Rightarrow> go_error + Provider"

record Registry =
  factories :: "string \<rightharpoonup> Factory"
  providers :: "string \<rightharpoonup> Provider"

definition NewRegistry :: Registry where
  "NewRegistry = \<lparr>factories = Map.empty, providers = Map.empty\<rparr>"

text \<open>
  The registry's methods take the registry and return the updated one beside
  their result; a returned \<^verbatim>\<open>error\<close> is an option, \<open>None\<close> for nil.
  The mutex is not modelled: the calls are taken one at a time.
\<close>

definition RegisterFactory :: "string \<Rightarrow> Factory \<Rightarrow> Registry \<Rightarrow> go_error option \<times> Registry" where
  "RegisterFactory providerType factory r =
     (case factories r providerType of
        Some _ \<Rightarrow>
          (Some (ErrorString (''provider type '' @ providerType @ '' already registered'')), r)
      | None \<Rightarrow> (None, r\<lparr>factories := (factories r)(providerType \<mapsto> factory)\<rparr>))"

text \<open>
  The outcome of a call that may panic. \<open>CreateProvider\<close> writes into the
  map its caller supplies, before it calls the factory; the map is a reference, so
  the caller sees the write. The model returns the caller's map beside the
  registry (\<open>None\<close> is the nil map, on which the write panics). The unknown-type
  check comes first and returns before the map is touched.
\<close>

datatype call_result = Returned "go_error option" | Panicked string

definition CreateProvider ::
  "string \<Rightarrow> string \<Rightarrow> config_map option \<Rightarrow> Registry
     \<Rightarrow> call_result \<times> Registry \<times> config_map option" where
  "CreateProvider name providerType config r =
     (case factories r providerType of
        None \<Rightarrow>
          (Returned (Some (ErrorString (''unknown provider type: '' @ providerType))), r, config)
      | Some factory \<Rightarrow>
          (case config of
             None \<Rightarrow> (Panicked ''assignment to entry in nil map'', r, None)
           | Some c \<Rightarrow>
               (let c' = c(''name'' \<mapsto> VString name) in
                case factory c' of
                  Inl err \<Rightarrow>
                    (Returned (Some (Errorf_w (''failed to create provider '' @ name @ '': '') err)),
                     r, Some c')
                | Inr provider \<Rightarrow>
                    (Returned None, r\<lparr>providers := (providers r)(name \<mapsto> provider)\<rparr>,
                     Some c'))))"

text \<open>\<open>GetProvider\<close> returns \<^verbatim>\<open>(provider, exists)\<close>: an option.\<close>

definition GetProvider :: "string \<Rightarrow> Registry \<Rightarrow> Provider option" where
  "GetProvider name r = providers r name"

text \<open>
  Go leaves the order in which \<^verbatim>\<open>range\<close> visits a map unspecified. The
  order of one iteration is a parameter of the model: a list \<open>ks\<close> of the map's
  keys, each once. \<open>range_values ks m\<close> are the values \<^verbatim>\<open>range m\<close> yields
  when it visits the keys in the order \<open>ks\<close>.
\<close>

definition iteration_order :: "('k \<rightharpoonup> 'v) \<Rightarrow> 'k list \<Rightarrow> bool" where
  "iteration_order m ks \<longleftrightarrow> distinct ks \<and> set ks = dom m"

definition range_values :: "'k list \<Rightarrow> ('k \<rightharpoonup> 'v) \<Rightarrow> 'v list" where
  "range_values ks m = List.map_filter m ks"

fun all_loop :: "Provider list \<Rightarrow> Provider list \<Rightarrow> Provider list" where
  "all_loop acc [] = acc"
| "all_loop acc (provider # rest) = all_loop (acc @ [provider]) rest"

definition GetAllProviders :: "string list \<Rightarrow> Registry \<Rightarrow> Provider list" where
  "GetAllProviders ks r = all_loop [] (range_values ks (providers r))"

fun enabled_loop :: "Provider list \<Rightarrow> Provider list \<Rightarrow> Provider list" where
  "enabled_loop acc [] = acc"
| "enabled_loop acc (provider # rest) =
     (if IsEnabled provider then enabled_loop (acc @ [provider]) rest
      else enabled_loop acc rest)"

definition GetEnabledProviders :: "string list \<Rightarrow> Registry \<Rightarrow> Provider list" where
  "GetEnabledProviders ks r = enabled_loop [] (range_values ks (providers r))"

fun tools_loop :: "Tool list \<Rightarrow> Provider list \<Rightarrow> Tool list" where
  "tools_loop tools [] = tools"
| "tools_loop tools (provider # rest) = tools_loop (tools @ GetTools provider) rest"

text \<open>
  \<open>GetAllTools\<close> ranges over the map once, inside \<open>GetEnabledProviders\<close>; its own
  loop runs over the slice that call returned.
\<close>

definition GetAllTools :: "string list \<Rightarrow> Registry \<Rightarrow> Tool list" where
  "GetAllTools ks r = tools_loop [] (GetEnabledProviders ks r)"

definition Clear :: "Registry \<Rightarrow> Registry" where
  "Clear r = r\<lparr>providers := Map.empty\<rparr>"

section \<open>internal/config: configuration\<close>

record AuthConfig =
  Type :: string
  Username :: string
  Password :: string
  APIKey :: string
  Token :: string
  ClientID :: string
  ClientSecret :: string
  TokenURL :: string

record ProviderConfig =
  Name :: string
  Type :: string
  Enabled :: bool
  BaseURL :: string
  Auth :: AuthConfig

record ServerConfig =
  Port :: string
  Environment :: string
  LogLevel :: string

record Config =
  Server :: ServerConfig
  Providers :: "ProviderConfig list"

text \<open>
  \<open>ProviderConfig.Validate\<close>. The \<^verbatim>\<open>switch\<close> on the auth kind stands inside
  \<^verbatim>\<open>if p.Enabled\<close> and has no default case.
\<close>

definition ProviderConfig_Validate :: "ProviderConfig \<Rightarrow> go_error option" where
  "ProviderConfig_Validate p =
     (if ProviderConfig.Name p = [] then Some (ErrorString ''provider name is required'')
      else if ProviderConfig.Type p = [] then Some (ErrorString ''provider type is required'')
      else if Enabled p \<and> BaseURL p = [] then
        Some (ErrorString ''base URL is required for enabled provider'')
      else if Enabled p then
        (if AuthConfig.Type (Auth p) = ''basic'' then
           (if Username (Auth p) = [] \<or> Password (Auth p) = [] then
              Some (ErrorString ''username and password required for basic auth'')
            else None)
         else if AuthConfig.Type (Auth p) = ''api_key'' then
           (if APIKey (Auth p) = [] then
              Some (ErrorString ''API key required for api_key auth'')
            else None)
         else if AuthConfig.Type (Auth p) = ''personal_token'' then
           (if Token (Auth p) = [] then
              Some (ErrorString ''token required for personal_token auth'')
            else None)
         else if AuthConfig.Type (Auth p) = ''oauth2'' then
           (if ClientID (Auth p) = [] \<or> ClientSecret (Auth p) = [] \<or> TokenURL (Auth p) = [] then
              Some (ErrorString
                ''client_id, client_secret, and token_url required for oauth2 auth'')
            else None)
         else None)
      else None)"

text \<open>\<open>Config.Validate\<close>: the loop returns at the first provider that fails.\<close>

fun validate_loop :: "ProviderConfig list \<Rightarrow> go_error option" where
  "validate_loop [] = None"
| "validate_loop (p # ps) =
     (case ProviderConfig_Validate p of
        Some err \<Rightarrow> Some (Errorf_w (''provider '' @ ProviderConfig.Name p @ '': '') err)
      | None \<Rightarrow> validate_loop ps)"

definition Config_Validate :: "Config \<Rightarrow> go_error option" where
  "Config_Validate c =
     (if Port (Server c) = [] then Some (ErrorString ''server port is required'')
      else validate_loop (Providers c))"

text \<open>\<open>Config.GetProvider\<close>: the first entry with the name.\<close>

fun Config_GetProvider_loop :: "ProviderConfig list \<Rightarrow> string \<Rightarrow> ProviderConfig option" where
  "Config_GetProvider_loop [] name = None"
| "Config_GetProvider_loop (p # ps) name =
     (if ProviderConfig.Name p = name then Some p else Config_GetProvider_loop ps name)"

definition Config_GetProvider :: "Config \<Rightarrow> string \<Rightarrow> ProviderConfig option" where
  "Config_GetProvider c name = Config_GetProvider_loop (Providers c) name"

definition getEnvOrDefault :: "(string \<Rightarrow> string) \<Rightarrow> string \<Rightarrow> string \<Rightarrow> string" where
  "getEnvOrDefault getenv key defaultValue =
     (if getenv key \<noteq> [] then getenv key else defaultValue)"

text \<open>
  \<open>Load\<close> reads the process environment and a configuration file through the
  viper library. The environment is the function \<open>getenv\<close>
  (\<^verbatim>\<open>os.Getenv\<close>: the empty string for an unset variable). The library is not
  part of the program; what its calls return is a parameter of the model:
  the result of \<^verbatim>\<open>ReadInConfig\<close>, \<^verbatim>\<open>GetString\<close> (after defaults, file and
  environment overrides), \<^verbatim>\<open>IsSet("providers")\<close> and
  \<^verbatim>\<open>UnmarshalKey("providers", ...)\<close>.
\<close>

datatype read_result = ConfigRead | ConfigFileNotFoundError | ConfigReadError go_error

record viper =
  ReadInConfig :: read_result
  GetString :: "string \<Rightarrow> string"
  IsSet_providers :: bool
  UnmarshalKey_providers :: "go_error + ProviderConfig list"

definition zero_AuthConfig :: AuthConfig where
  "zero_AuthConfig =
     \<lparr>AuthConfig.Type = [], Username = [], Password = [], APIKey = [], Token = [],
      ClientID = [], ClientSecret = [], TokenURL = []\<rparr>"

text \<open>The providers \<open>Load\<close> builds from the environment, in the order it appends them.\<close>

definition env_providers :: "(string \<Rightarrow> string) \<Rightarrow> ProviderConfig list" where
  "env_providers getenv =
     (if getenv ''JIRA_BASE_URL'' \<noteq> [] then
        [\<lparr>ProviderConfig.Name = ''jira'', Type = ''jira'', Enabled = True,
          BaseURL = getenv ''JIRA_BASE_URL'',
          Auth = zero_AuthConfig\<lparr>AuthConfig.Type := ''basic'',
                   Username := getenv ''JIRA_USERNAME'',
                   Password := getenv ''JIRA_PASSWORD''\<rparr>\<rparr>]
      else [])
     @ (if getenv ''WIKI_BASE_URL'' \<noteq> [] then
        [\<lparr>ProviderConfig.Name = ''wiki'', Type = ''confluence'', Enabled = True,
          BaseURL = getenv ''WIKI_BASE_URL'',
          Auth = zero_AuthConfig\<lparr>AuthConfig.Type := ''api_key'',
                   APIKey := getenv ''WIKI_API_KEY''\<rparr>\<rparr>]
      else [])
     @ (if getenv ''GITLAB_BASE_URL'' \<noteq> [] then
        [\<lparr>ProviderConfig.Name = ''gitlab'', Type = ''gitlab'', Enabled = True,
          BaseURL = getenv ''GITLAB_BASE_URL'',
          Auth = zero_AuthConfig\<lparr>AuthConfig.Type := ''personal_token'',
                   Token := getenv ''GITLAB_TOKEN''\<rparr>\<rparr>]
      else [])"

text \<open>
  The merge. The inner loop looks for the file entry's name among the providers
  collected so far (\<^verbatim>\<open>cfg.Providers\<close>, which grows as file entries are
  appended); the outer loop appends the file entry when the name was not found.
\<close>

fun exists_loop :: "ProviderConfig list \<Rightarrow> ProviderConfig \<Rightarrow> bool" where
  "exists_loop [] fp = False"
| "exists_loop (ep # eps) fp =
     (if ProviderConfig.Name ep = ProviderConfig.Name fp then True else exists_loop eps fp)"

fun merge_loop :: "ProviderConfig list \<Rightarrow> ProviderConfig list \<Rightarrow> ProviderConfig list" where
  "merge_loop cfgProviders [] = cfgProviders"
| "merge_loop cfgProviders (fp # fileProviders) =
     (if \<not> exists_loop cfgProviders fp then merge_loop (cfgProviders @ [fp]) fileProviders
      else merge_loop cfgProviders fileProviders)"

definition Load :: "(string \<Rightarrow> string) \<Rightarrow> viper \<Rightarrow> go_error + Config" where
  "Load getenv v =
     (case ReadInConfig v of
        ConfigReadError err \<Rightarrow> Inl (Errorf_w ''error reading config file: '' err)
      | _ \<Rightarrow>
        (let cfg = \<lparr>Server = \<lparr>Port = getEnvOrDefault getenv ''PORT'' (GetString v ''server.port''),
                                Environment = GetString v ''server.environment'',
                                LogLevel = GetString v ''server.loglevel''\<rparr>,
                    Providers = env_providers getenv\<rparr>
         in if IsSet_providers v then
              (case UnmarshalKey_providers v of
                 Inl err \<Rightarrow> Inl (Errorf_w ''error unmarshaling providers: '' err)
               | Inr fileProviders \<Rightarrow>
                   Inr (cfg\<lparr>Providers := merge_loop (Providers cfg) fileProviders\<rparr>))
            else Inr cfg))"

text \<open>The file's provider entries as \<open>Load\<close> sees them: none unless the key is set.\<close>

definition file_providers :: "viper \<Rightarrow> ProviderConfig list" where
  "file_providers v =
     (if IsSet_providers v then
        (case UnmarshalKey_providers v of Inl err \<Rightarrow> [] | Inr fileProviders \<Rightarrow> fileProviders)
      else [])"

section \<open>Values from the program and its tests\<close>

text \<open>
  The mock provider and the registry of \<^verbatim>\<open>TestGetAllTools\<close>
  (\<^verbatim>\<open>internal/providers/provider_test.go\<close>): two enabled providers and a
  disabled one, stored in the instance map directly.
\<close>

definition zero_Schema :: Schema where
  "zero_Schema =
     \<lparr>Schema.Type = [], Properties = [], Required = [], Description = [], Title = []\<rparr>"

definition test_tool :: "string \<Rightarrow> string \<Rightarrow> Tool" where
  "test_tool n d =
     \<lparr>Tool.Name = n, Description = d, Inputs = zero_Schema, Outputs = zero_Schema, Tags = [],
      AverageResponseSize = 0, ToolProvider = None\<rparr>"

definition MockProvider :: "string \<Rightarrow> bool \<Rightarrow> Tool list \<Rightarrow> Provider" where
  "MockProvider n en ts = \<lparr>GetTools = ts, GetName = n, GetType = ''mock'', IsEnabled = en\<rparr>"

definition test_registry :: Registry where
  "test_registry =
     \<lparr>factories = Map.empty,
      providers =
        [''p1'' \<mapsto> MockProvider ''p1'' True
                    [test_tool ''tool1'' ''Tool 1'', test_tool ''tool2'' ''Tool 2''],
         ''p2'' \<mapsto> MockProvider ''p2'' True [test_tool ''tool3'' ''Tool 3''],
         ''p3'' \<mapsto> MockProvider ''p3'' False [test_tool ''disabled_tool'' []]]\<rparr>"

text \<open>
  The Jira factory (\<^verbatim>\<open>internal/providers/jira/provider.go\<close>). A failed type
  assertion \<^verbatim>\<open>v, _ := config[k].(string)\<close> yields the zero value. The tool
  catalogue the provider lists is a parameter.
\<close>

definition config_string :: "config_map \<Rightarrow> string \<Rightarrow> string" where
  "config_string config k = (case config k of Some (VString s) \<Rightarrow> s | _ \<Rightarrow> [])"

definition config_bool :: "config_map \<Rightarrow> string \<Rightarrow> bool" where
  "config_bool config k = (case config k of Some (VBool b) \<Rightarrow> b | _ \<Rightarrow> False)"

definition NewProviderFromConfig :: "Tool list \<Rightarrow> Factory" where
  "NewProviderFromConfig catalogue config =
     (if config_string config ''base_url'' = [] then Inl (ErrorString ''base_url is required'')
      else if config_string config ''username'' = [] \<or> config_string config ''password'' = [] then
        Inl (ErrorString ''username and password are required for Jira provider'')
      else
        Inr \<lparr>GetTools = catalogue, GetName = config_string config ''name'', GetType = ''jira'',
             IsEnabled = config_bool config ''enabled''\<rparr>)"

definition jira_registry :: Registry where
  "jira_registry = snd (RegisterFactory ''jira'' (NewProviderFromConfig []) NewRegistry)"

definition jira_map :: config_map where
  "jira_map =
     [''enabled'' \<mapsto> VBool True, ''base_url'' \<mapsto> VString ''https://jira.x.com'',
      ''username'' \<mapsto> VString ''u'', ''password'' \<mapsto> VString ''p'']"

definition jira_provider :: Provider where
  "jira_provider = \<lparr>GetTools = [], GetName = ''jira'', GetType = ''jira'', IsEnabled = True\<rparr>"

text \<open>
  A tool with three properties whose defaults are falsy: the boolean
  \<^verbatim>\<open>owned\<close> of the GitLab catalogue (default \<^verbatim>\<open>false\<close>), a string with
  the default \<^verbatim>\<open>""\<close>, and the integer \<^verbatim>\<open>startAt\<close> of the Jira catalogue
  (default \<^verbatim>\<open>0\<close>); the manual that holds it; and the document \<open>ToJSON\<close>
  writes for that manual.
\<close>

definition owned_property :: Property where
  "owned_property =
     \<lparr>Property.Type = ''boolean'', Description = [], Enum = [], Default = VBool False\<rparr>"

definition prefix_property :: Property where
  "prefix_property =
     \<lparr>Property.Type = ''string'', Description = [], Enum = [], Default = VString []\<rparr>"

definition startAt_property :: Property where
  "startAt_property =
     \<lparr>Property.Type = ''integer'', Description = ''Starting index for pagination'',
      Enum = [], Default = VInt 0\<rparr>"

definition falsy_tool :: Tool where
  "falsy_tool =
     (test_tool ''list_projects'' ''List projects'')
       \<lparr>Inputs := zero_Schema
          \<lparr>Schema.Type := ''object'',
           Properties := [(''owned'', owned_property), (''prefix'', prefix_property),
                          (''startAt'', startAt_property)]\<rparr>\<rparr>"

definition falsy_manual :: Manual where
  "falsy_manual = AddTool falsy_tool NewManual"

definition falsy_json :: json where
  "falsy_json =
     JObject
       [(''version'', JString ''0.1.0''),
        (''tools'', JArray
           [JObject
              [(''name'', JString ''list_projects''),
               (''description'', JString ''List projects''),
               (''inputs'', JObject
                  [(''type'', JString ''object''),
                   (''properties'', JObject
                      [(''owned'', JObject
                          [(''type'', JString ''boolean''),
                           (''description'', JString []),
                           (''default'', JBool False)]),
                       (''prefix'', JObject
                          [(''type'', JString ''string''),
                           (''description'', JString []),
                           (''default'', JString [])]),
                       (''startAt'', JObject
                          [(''type'', JString ''integer''),
                           (''description'', JString ''Starting index for pagination''),
                           (''default'', JNum 0)])])]),
               (''outputs'', JObject [(''type'', JString [])]),
               (''tool_provider'', JNull)]])]"

text \<open>
  A manual of three tools whose names are not in alphabetical order, and a
  manual whose version is the single byte FF, which is not valid UTF-8.
\<close>

definition ordered_manual :: Manual where
  "ordered_manual =
     AddTool (test_tool ''alpha'' ''Third'')
       (AddTool falsy_tool (AddTool (test_tool ''zeta'' ''First'') NewManual))"

definition invalid_manual :: Manual where
  "invalid_manual = \<lparr>Version = [CHR 0xFF], Tools = Some []\<rparr>"

text \<open>
  The provider configuration of the validation scenario; the same provider
  disabled and without a user name; one with an auth kind the program does not
  know; and an environment and a file for \<open>Load\<close>.
\<close>

definition jira_config :: ProviderConfig where
  "jira_config =
     \<lparr>ProviderConfig.Name = ''jira'', Type = ''jira'', Enabled = True,
      BaseURL = ''https://jira.x.com'',
      Auth = zero_AuthConfig\<lparr>AuthConfig.Type := ''basic'', Username := ''u'',
               Password := ''p''\<rparr>\<rparr>"

definition disabled_jira :: ProviderConfig where
  "disabled_jira = jira_config\<lparr>Enabled := False, Auth := (Auth jira_config)\<lparr>Username := []\<rparr>\<rparr>"

definition kerberos_config :: ProviderConfig where
  "kerberos_config = jira_config\<lparr>Auth := zero_AuthConfig\<lparr>AuthConfig.Type := ''kerberos''\<rparr>\<rparr>"

definition test_server :: ServerConfig where
  "test_server = \<lparr>Port = ''8080'', Environment = ''development'', LogLevel = ''info''\<rparr>"

definition jira_env :: "string \<Rightarrow> string" where
  "jira_env key =
     (if key = ''JIRA_BASE_URL'' then ''https://jira.x.com''
      else if key = ''JIRA_USERNAME'' then ''u''
      else if key = ''JIRA_PASSWORD'' then ''p''
      else [])"

definition file_jira :: ProviderConfig where
  "file_jira =
     \<lparr>ProviderConfig.Name = ''jira'', Type = ''jira'', Enabled = False,
      BaseURL = ''https://other.example.com'',
      Auth = zero_AuthConfig\<lparr>AuthConfig.Type := ''oauth2'', ClientID := ''id''\<rparr>\<rparr>"

definition file_custom :: ProviderConfig where
  "file_custom =
     \<lparr>ProviderConfig.Name = ''custom'', Type = ''gitlab'', Enabled = False, BaseURL = [],
      Auth = zero_AuthConfig\<rparr>"

definition test_viper :: viper where
  "test_viper =
     \<lparr>ReadInConfig = ConfigRead,
      GetString = (\<lambda>key. if key = ''server.port'' then ''8080''
                         else if key = ''server.environment'' then ''development''
                         else if key = ''server.loglevel'' then ''info'' else []),
      IsSet_providers = True,
      UnmarshalKey_providers = Inr [file_jira, file_custom, file_custom]\<rparr>"

section \<open>Predicates of the specification\<close>

text \<open>A registered instance name whose provider reports that it is enabled.\<close>

definition enabled_name :: "Registry \<Rightarrow> string \<Rightarrow> bool" where
  "enabled_name r n = (case providers r n of Some p \<Rightarrow> IsEnabled p | None \<Rightarrow> False)"

text \<open>The schema of a tool under the key \<^verbatim>\<open>inputs\<close> or \<^verbatim>\<open>outputs\<close>.\<close>

definition schema_of :: "string \<Rightarrow> Tool \<Rightarrow> Schema option" where
  "schema_of side t =
     (if side = ''inputs'' then Some (Inputs t)
      else if side = ''outputs'' then Some (Outputs t) else None)"

text \<open>The entries of a map under the keys the encoder writes for them.\<close>

definition encoded_keys :: "(string \<times> 'a) list \<Rightarrow> (string \<times> 'a) list" where
  "encoded_keys es = map (\<lambda>(k, v). (coerce_utf8 k, v)) es"

text \<open>
  The declared auth variant lacks a field it requires; and a provider
  configuration that validation refuses: no name, no type, or enabled with no
  base URL or with an incomplete auth variant.
\<close>

definition auth_incomplete :: "AuthConfig \<Rightarrow> bool" where
  "auth_incomplete a \<longleftrightarrow>
     AuthConfig.Type a = ''basic'' \<and> (Username a = [] \<or> Password a = [])
   \<or> AuthConfig.Type a = ''api_key'' \<and> APIKey a = []
   \<or> AuthConfig.Type a = ''personal_token'' \<and> Token a = []
   \<or> AuthConfig.Type a = ''oauth2''
       \<and> (ClientID a = [] \<or> ClientSecret a = [] \<or> TokenURL a = [])"

definition provider_invalid :: "ProviderConfig \<Rightarrow> bool" where
  "provider_invalid p \<longleftrightarrow>
     ProviderConfig.Name p = [] \<or> ProviderConfig.Type p = []
   \<or> Enabled p \<and> (BaseURL p = [] \<or> auth_incomplete (Auth p))"

text \<open>
  The values \<^verbatim>\<open>encoding/json\<close> can encode, and a manual all of whose
  \<^verbatim>\<open>interface{}\<close> values are such.
\<close>

fun encodable :: "go_value \<Rightarrow> bool"
  and encodable_values :: "go_value list \<Rightarrow> bool"
  and encodable_entries :: "(string \<times> go_value) list \<Rightarrow> bool" where
  "encodable VNil = True"
| "encodable (VBool b) = True"
| "encodable (VInt n) = True"
| "encodable (VFloat64 n) = True"
| "encodable (VString s) = True"
| "encodable (VSlice vs) = encodable_values vs"
| "encodable (VMap es) = encodable_entries es"
| "encodable VChan = False"
| "encodable_values [] = True"
| "encodable_values (v # vs) = (encodable v \<and> encodable_values vs)"
| "encodable_entries [] = True"
| "encodable_entries ((k, v) # es) = (encodable v \<and> encodable_entries es)"

definition encodable_Schema :: "Schema \<Rightarrow> bool" where
  "encodable_Schema s = list_all (\<lambda>(k, p). encodable (Default p)) (Properties s)"

definition encodable_Tool :: "Tool \<Rightarrow> bool" where
  "encodable_Tool t \<longleftrightarrow>
     encodable_Schema (Inputs t) \<and> encodable_Schema (Outputs t)
     \<and> (case ToolProvider t of None \<Rightarrow> True | Some es \<Rightarrow> encodable_entries es)"

definition encodable_Manual :: "Manual \<Rightarrow> bool" where
  "encodable_Manual m = (case Tools m of None \<Rightarrow> True | Some ts \<Rightarrow> list_all encodable_Tool ts)"

text \<open>
  The depth to which the dynamic values of a manual nest: of a value, of the
  defaults of a schema's properties, of a tool (its two schemas and its
  \<open>ToolProvider\<close> map) and of a manual.
\<close>

fun value_depth :: "go_value \<Rightarrow> nat"
  and values_depth :: "go_value list \<Rightarrow> nat"
  and entries_depth :: "(string \<times> go_value) list \<Rightarrow> nat" where
  "value_depth VNil = 0"
| "value_depth (VBool b) = 0"
| "value_depth (VInt n) = 0"
| "value_depth (VFloat64 n) = 0"
| "value_depth (VString s) = 0"
| "value_depth (VSlice vs) = Suc (values_depth vs)"
| "value_depth (VMap es) = Suc (entries_depth es)"
| "value_depth VChan = 0"
| "values_depth [] = 0"
| "values_depth (v # vs) = max (value_depth v) (values_depth vs)"
| "entries_depth [] = 0"
| "entries_depth ((k, v) # es) = max (value_depth v) (entries_depth es)"

fun properties_depth :: "(string \<times> Property) list \<Rightarrow> nat" where
  "properties_depth [] = 0"
| "properties_depth ((k, p) # ps) = max (value_depth (Default p)) (properties_depth ps)"

definition tool_depth :: "Tool \<Rightarrow> nat" where
  "tool_depth t =
     max (max (properties_depth (Properties (Inputs t)))
              (properties_depth (Properties (Outputs t))))
         (case ToolProvider t of None \<Rightarrow> 0 | Some es \<Rightarrow> entries_depth es)"

fun tools_depth :: "Tool list \<Rightarrow> nat" where
  "tools_depth [] = 0"
| "tools_depth (t # ts) = max (tool_depth t) (tools_depth ts)"

definition manual_depth :: "Manual \<Rightarrow> nat" where
  "manual_depth m = (case Tools m of None \<Rightarrow> 0 | Some ts \<Rightarrow> tools_depth ts)"

section \<open>The registry: theorems\<close>

lemma enabled_loop_filter: "enabled_loop acc ps = acc @ filter IsEnabled ps"
  by (induction ps arbitrary: acc) auto

lemma tools_loop_concat: "tools_loop acc ps = acc @ concat (map GetTools ps)"
  by (induction ps arbitrary: acc) auto

lemma enabled_via_names:
  "set ks \<subseteq> dom (providers r) \<Longrightarrow>
   map Some (GetEnabledProviders ks r) = map (providers r) (filter (enabled_name r) ks)"
  by (induction ks)
    (auto simp: GetEnabledProviders_def enabled_loop_filter range_values_def
      enabled_name_def split: option.splits)

text \<open>
  C1. Whatever the order \<open>ks\<close> in which the iteration visits the instance map,
  \<open>GetAllTools\<close> is the concatenation of \<open>GetTools\<close> over the list
  \<open>GetEnabledProviders\<close> returns, provider after provider; that list holds the
  provider of each instance name whose provider is enabled, once per name, and
  no other; so every tool of the result is one an enabled provider lists.
\<close>

theorem GetAllTools_enabled_concat:
  assumes "iteration_order (providers r) ks"
  shows "GetAllTools ks r = concat (map GetTools (GetEnabledProviders ks r))
       \<and> (\<exists>ns. distinct ns
              \<and> set ns = {n. \<exists>p. providers r n = Some p \<and> IsEnabled p}
              \<and> map (providers r) ns = map Some (GetEnabledProviders ks r))
       \<and> (\<forall>t \<in> set (GetAllTools ks r).
              \<exists>n p. providers r n = Some p \<and> IsEnabled p \<and> t \<in> set (GetTools p))"
proof -
  from assms have d: "distinct ks" and s: "set ks = dom (providers r)"
    by (simp_all add: iteration_order_def)
  have c: "GetAllTools ks r = concat (map GetTools (GetEnabledProviders ks r))"
    by (simp add: GetAllTools_def tools_loop_concat)
  let ?ns = "filter (enabled_name r) ks"
  have m: "map (providers r) ?ns = map Some (GetEnabledProviders ks r)"
    using s by (simp add: enabled_via_names)
  have e: "set ?ns = {n. \<exists>p. providers r n = Some p \<and> IsEnabled p}"
    using s by (auto simp: enabled_name_def split: option.splits)
  have x: "\<exists>ns. distinct ns
              \<and> set ns = {n. \<exists>p. providers r n = Some p \<and> IsEnabled p}
              \<and> map (providers r) ns = map Some (GetEnabledProviders ks r)"
    using d e m by (intro exI[of _ ?ns]) simp
  have t: "\<forall>t \<in> set (GetAllTools ks r).
              \<exists>n p. providers r n = Some p \<and> IsEnabled p \<and> t \<in> set (GetTools p)"
  proof
    fix t assume "t \<in> set (GetAllTools ks r)"
    then obtain p where p: "p \<in> set (GetEnabledProviders ks r)" "t \<in> set (GetTools p)"
      by (auto simp: c)
    then have "Some p \<in> set (map (providers r) ?ns)" by (simp add: m)
    then obtain n where "n \<in> set ?ns" "providers r n = Some p" by auto
    with e p show "\<exists>n p. providers r n = Some p \<and> IsEnabled p \<and> t \<in> set (GetTools p)"
      by auto
  qed
  from c x t show ?thesis by blast
qed

text \<open>
  The registry of \<^verbatim>\<open>TestGetAllTools\<close>, visited with the disabled provider
  first: the three tools of the enabled providers, and not \<^verbatim>\<open>disabled_tool\<close>.
\<close>

theorem GetAllTools_enabled_concat_witness:
  "iteration_order (providers test_registry) [''p3'', ''p1'', ''p2'']
   \<and> GetAllTools [''p3'', ''p1'', ''p2''] test_registry
       = concat (map GetTools (GetEnabledProviders [''p3'', ''p1'', ''p2''] test_registry))
   \<and> map Tool.Name (GetAllTools [''p3'', ''p1'', ''p2''] test_registry)
       = [''tool1'', ''tool2'', ''tool3'']"
proof -
  have h: "iteration_order (providers test_registry) [''p3'', ''p1'', ''p2'']"
    by (auto simp: iteration_order_def test_registry_def)
  have e: "GetEnabledProviders [''p3'', ''p1'', ''p2''] test_registry
       = [MockProvider ''p1'' True
            [test_tool ''tool1'' ''Tool 1'', test_tool ''tool2'' ''Tool 2''],
          MockProvider ''p2'' True [test_tool ''tool3'' ''Tool 3'']]"
    by (simp add: GetEnabledProviders_def range_values_def test_registry_def MockProvider_def)
  from GetAllTools_enabled_concat [OF h]
  have c: "GetAllTools [''p3'', ''p1'', ''p2''] test_registry
       = concat (map GetTools (GetEnabledProviders [''p3'', ''p1'', ''p2''] test_registry))"
    by blast
  have "map Tool.Name (GetAllTools [''p3'', ''p1'', ''p2''] test_registry)
       = [''tool1'', ''tool2'', ''tool3'']"
    unfolding c e by (simp add: MockProvider_def test_tool_def)
  with h c show ?thesis by blast
qed

text \<open>
  C3. With a factory registered for the type and a non-nil configuration map:
  when the factory (called on the map with the name written into it) returns an
  error, \<open>CreateProvider\<close> returns an error that wraps it and whose message
  names the instance, and the instance map is what it was; when the factory
  returns a provider, \<open>CreateProvider\<close> returns nil and the instance map has
  that provider under the name, in place of whatever was stored there.
\<close>

theorem CreateProvider_factory_result:
  assumes "factories r providerType = Some factory"
  shows "(factory (c(''name'' \<mapsto> VString name)) = Inl err \<longrightarrow>
            fst (CreateProvider name providerType (Some c) r)
              = Returned (Some (WrapError
                  (''failed to create provider '' @ name @ '': '' @ Error err) err))
            \<and> Unwrap (WrapError
                  (''failed to create provider '' @ name @ '': '' @ Error err) err) = Some err
            \<and> providers (fst (snd (CreateProvider name providerType (Some c) r))) = providers r)
       \<and> (factory (c(''name'' \<mapsto> VString name)) = Inr p \<longrightarrow>
            fst (CreateProvider name providerType (Some c) r) = Returned None
            \<and> providers (fst (snd (CreateProvider name providerType (Some c) r)))
                = (providers r)(name \<mapsto> p)
            \<and> GetProvider name (fst (snd (CreateProvider name providerType (Some c) r)))
                = Some p)"
  using assms by (simp add: CreateProvider_def Errorf_w_def GetProvider_def)

lemma jira_registry_factory:
  "factories jira_registry ''jira'' = Some (NewProviderFromConfig [])"
  by (simp add: jira_registry_def RegisterFactory_def NewRegistry_def)

lemma jira_factory_fails:
  "NewProviderFromConfig [] (Map.empty(''name'' \<mapsto> VString ''jira''))
     = Inl (ErrorString ''base_url is required'')"
  by (simp add: NewProviderFromConfig_def config_string_def)

lemma jira_factory_succeeds:
  "NewProviderFromConfig [] (jira_map(''name'' \<mapsto> VString ''jira'')) = Inr jira_provider"
  by (simp add: NewProviderFromConfig_def config_string_def config_bool_def jira_map_def
      jira_provider_def)

text \<open>
  The Jira factory on an empty map fails for want of a base URL; on a complete
  map it builds the provider.
\<close>

theorem CreateProvider_factory_result_witness:
  "factories jira_registry ''jira'' = Some (NewProviderFromConfig [])
   \<and> fst (CreateProvider ''jira'' ''jira'' (Some Map.empty) jira_registry)
       = Returned (Some (WrapError ''failed to create provider jira: base_url is required''
                          (ErrorString ''base_url is required'')))
   \<and> providers (fst (snd (CreateProvider ''jira'' ''jira'' (Some Map.empty) jira_registry)))
       = providers jira_registry
   \<and> fst (CreateProvider ''jira'' ''jira'' (Some jira_map) jira_registry) = Returned None
   \<and> GetProvider ''jira'' (fst (snd (CreateProvider ''jira'' ''jira'' (Some jira_map) jira_registry)))
       = Some jira_provider"
  using CreateProvider_factory_result [OF jira_registry_factory, of Map.empty "''jira''"
      "ErrorString ''base_url is required''"]
    CreateProvider_factory_result [OF jira_registry_factory, of jira_map "''jira''" _
      jira_provider]
    jira_registry_factory jira_factory_fails jira_factory_succeeds
  by simp

text \<open>
  C4 as stated fails: after \<^verbatim>\<open>jira\<close> has been created, a second
  \<open>CreateProvider\<close> under the same name with an unregistered type returns the
  unknown-type error, and \<open>GetProvider\<close> still finds the instance.
\<close>

theorem CreateProvider_unknown_type_still_found:
  "factories (fst (snd (CreateProvider ''jira'' ''jira'' (Some jira_map) jira_registry)))
      ''unknown-type'' = None
   \<and> fst (CreateProvider ''jira'' ''unknown-type'' (Some Map.empty)
            (fst (snd (CreateProvider ''jira'' ''jira'' (Some jira_map) jira_registry))))
       = Returned (Some (ErrorString ''unknown provider type: unknown-type''))
   \<and> GetProvider ''jira''
        (fst (snd (CreateProvider ''jira'' ''unknown-type'' (Some Map.empty)
            (fst (snd (CreateProvider ''jira'' ''jira'' (Some jira_map) jira_registry))))))
       = Some jira_provider"
  using jira_factory_succeeds
  by (simp add: CreateProvider_def GetProvider_def jira_registry_def RegisterFactory_def
      NewRegistry_def)

text \<open>
  C4, amended. When the type has no registered factory, \<open>CreateProvider\<close>
  returns the unknown-type error and leaves the registry and the caller's map as
  they were: \<open>GetProvider\<close> answers for every name as before the call, so it
  reports not-found for the name when no instance was stored under it before.
\<close>

theorem CreateProvider_unknown_type:
  assumes "factories r providerType = None"
  shows "CreateProvider name providerType config r =
           (Returned (Some (ErrorString (''unknown provider type: '' @ providerType))), r, config)
       \<and> GetProvider n (fst (snd (CreateProvider name providerType config r))) = GetProvider n r
       \<and> (GetProvider name r = None \<longrightarrow>
            GetProvider name (fst (snd (CreateProvider name providerType config r))) = None)"
  using assms by (simp add: CreateProvider_def)

theorem CreateProvider_unknown_type_witness:
  "factories jira_registry ''unknown-type'' = None
   \<and> GetProvider ''unknown'' jira_registry = None
   \<and> fst (CreateProvider ''unknown'' ''unknown-type'' (Some Map.empty) jira_registry)
       = Returned (Some (ErrorString ''unknown provider type: unknown-type''))
   \<and> GetProvider ''unknown''
        (fst (snd (CreateProvider ''unknown'' ''unknown-type'' (Some Map.empty) jira_registry)))
       = None"
proof -
  have f: "factories jira_registry ''unknown-type'' = None"
    by (simp add: jira_registry_def RegisterFactory_def NewRegistry_def)
  have g: "GetProvider ''unknown'' jira_registry = None"
    by (simp add: GetProvider_def jira_registry_def RegisterFactory_def NewRegistry_def)
  from CreateProvider_unknown_type [OF f, of "''unknown''" "Some Map.empty" "''unknown''"] f g
  show ?thesis by simp
qed

text \<open>
  C7. Once a factory has been registered under a type tag, a second
  \<open>RegisterFactory\<close> with the same tag returns an error, and the registry is
  what it was: the factory registered first is still the one under the tag.
\<close>

theorem RegisterFactory_twice:
  assumes "RegisterFactory t f1 r = (None, r1)"
  shows "RegisterFactory t f2 r1 =
           (Some (ErrorString (''provider type '' @ t @ '' already registered'')), r1)
         \<and> factories r1 t = Some f1
         \<and> factories (snd (RegisterFactory t f2 r1)) t = Some f1"
  using assms by (auto simp: RegisterFactory_def split: option.splits)

theorem RegisterFactory_twice_witness:
  "RegisterFactory ''jira'' (NewProviderFromConfig []) NewRegistry = (None, jira_registry)
   \<and> fst (RegisterFactory ''jira'' (\<lambda>config. Inr jira_provider) jira_registry)
       = Some (ErrorString ''provider type jira already registered'')
   \<and> factories (snd (RegisterFactory ''jira'' (\<lambda>config. Inr jira_provider) jira_registry)) ''jira''
       = Some (NewProviderFromConfig [])"
proof -
  have h: "RegisterFactory ''jira'' (NewProviderFromConfig []) NewRegistry = (None, jira_registry)"
    by (simp add: jira_registry_def RegisterFactory_def NewRegistry_def)
  from RegisterFactory_twice [OF h, of "\<lambda>config. Inr jira_provider"] h
  show ?thesis by simp
qed

text \<open>
  C9. With a factory registered for the type and a non-nil map \<open>c\<close>, the
  caller's map after the call is \<open>c\<close> with \<^verbatim>\<open>"name"\<close> set to the instance
  name, whatever the factory returns; the factory is called on that map; and
  when the factory fails, \<open>CreateProvider\<close> returns the error and the entry is
  still in the caller's map.
\<close>

theorem CreateProvider_writes_name:
  assumes "factories r providerType = Some factory"
  shows "snd (snd (CreateProvider name providerType (Some c) r))
           = Some (c(''name'' \<mapsto> VString name))
       \<and> fst (CreateProvider name providerType (Some c) r) =
           (case factory (c(''name'' \<mapsto> VString name)) of
              Inl err \<Rightarrow>
                Returned (Some (Errorf_w (''failed to create provider '' @ name @ '': '') err))
            | Inr provider \<Rightarrow> Returned None)
       \<and> (factory (c(''name'' \<mapsto> VString name)) = Inl err \<longrightarrow>
            fst (CreateProvider name providerType (Some c) r)
              = Returned (Some (Errorf_w (''failed to create provider '' @ name @ '': '') err))
            \<and> (\<exists>c'. snd (snd (CreateProvider name providerType (Some c) r)) = Some c'
                    \<and> c' ''name'' = Some (VString name)))"
  using assms by (simp add: CreateProvider_def split: sum.splits)

theorem CreateProvider_writes_name_witness:
  "factories jira_registry ''jira'' = Some (NewProviderFromConfig [])
   \<and> NewProviderFromConfig [] (Map.empty(''name'' \<mapsto> VString ''jira''))
       = Inl (ErrorString ''base_url is required'')
   \<and> snd (snd (CreateProvider ''jira'' ''jira'' (Some Map.empty) jira_registry))
       = Some [''name'' \<mapsto> VString ''jira'']
   \<and> fst (CreateProvider ''jira'' ''jira'' (Some Map.empty) jira_registry)
       = Returned (Some (Errorf_w ''failed to create provider jira: ''
                          (ErrorString ''base_url is required'')))"
  using CreateProvider_writes_name [OF jira_registry_factory, of "''jira''" Map.empty
      "ErrorString ''base_url is required''"]
    jira_registry_factory jira_factory_fails
  by simp

section \<open>The manual: theorems\<close>

lemma bind_res_Inr_iff:
  "bind_res x f = Inr y \<longleftrightarrow> (\<exists>a. x = Inr a \<and> f a = Inr y)"
  by (cases x) (simp_all add: bind_res_def)

lemma bind_res_Inr [simp]: "bind_res (Inr a) f = f a"
  by (simp add: bind_res_def)

lemma bind_res_Inl [simp]: "bind_res (Inl e) f = Inl e"
  by (simp add: bind_res_def)

lemma member_simps [simp]:
  "member k [] = JNull"
  "member k ((k', j) # ms) = (if k = k' then j else member k ms)"
  by (simp_all add: member_def)

lemma member_omitempty:
  "member k (omitempty e k' j @ ms) = (if k = k' \<and> \<not> e then j else member k ms)"
  by (simp add: omitempty_def)

subsection \<open>Strings the encoder leaves as they are\<close>

lemma coerce_from_valid: "valid_from k s \<Longrightarrow> coerce_from k s = s"
  by (induction k s rule: coerce_from.induct) auto

lemma coerce_utf8_valid: "ValidString s \<Longrightarrow> coerce_utf8 s = s"
  by (simp add: ValidString_def coerce_utf8_def coerce_from_valid)

lemma map_coerce_utf8_valid: "list_all ValidString xs \<Longrightarrow> map coerce_utf8 xs = xs"
  by (induction xs) (simp_all add: coerce_utf8_valid)

lemma encoded_keys_valid:
  "list_all (\<lambda>(k, v). ValidString k) es \<Longrightarrow> encoded_keys es = es"
  by (induction es) (auto simp: encoded_keys_def coerce_utf8_valid)

lemma ToJSON_marshal:
  "ToJSON m = Inr j \<longleftrightarrow> marshal_Manual m = Inr j \<and> json_depth j \<le> maxNestingDepth"
  by (auto simp: ToJSON_def MarshalIndent_def bind_res_Inr_iff split: sum.splits if_splits)

subsection \<open>What the document holds\<close>

lemma marshal_Properties_lookup:
  "marshal_Properties ps = Inr ms \<Longrightarrow> map_of (encoded_keys ps) k = Some p \<Longrightarrow>
   \<exists>j. map_of ms k = Some j \<and> marshal_Property p = Inr j"
proof (induction ps arbitrary: ms)
  case Nil
  then show ?case by (simp add: encoded_keys_def)
next
  case (Cons kp ps)
  obtain k' p' where kp: "kp = (k', p')" by (cases kp)
  from Cons.prems(1) obtain j' ms' where j': "marshal_Property p' = Inr j'"
    and ms': "marshal_Properties ps = Inr ms'" and ms: "ms = (coerce_utf8 k', j') # ms'"
    by (auto simp: kp bind_res_Inr_iff)
  show ?case
  proof (cases "k = coerce_utf8 k'")
    case True
    with Cons.prems(2) have "p = p'" by (simp add: kp encoded_keys_def)
    with True j' show ?thesis by (simp add: ms)
  next
    case False
    with Cons.prems(2) have "map_of (encoded_keys ps) k = Some p"
      by (simp add: kp encoded_keys_def)
    from Cons.IH [OF ms' this] False show ?thesis by (simp add: ms)
  qed
qed

lemma marshal_Properties_nth:
  "marshal_Properties ps = Inr ms \<Longrightarrow> n < length ps \<Longrightarrow> ps ! n = (k, p) \<Longrightarrow>
   n < length ms \<and> (\<exists>jp. ms ! n = (coerce_utf8 k, jp) \<and> marshal_Property p = Inr jp)"
proof (induction ps arbitrary: ms n)
  case Nil
  then show ?case by simp
next
  case (Cons kp ps)
  obtain k' p' where kp: "kp = (k', p')" by (cases kp)
  from Cons.prems(1) obtain j' ms' where j': "marshal_Property p' = Inr j'"
    and ms': "marshal_Properties ps = Inr ms'" and ms: "ms = (coerce_utf8 k', j') # ms'"
    by (auto simp: kp bind_res_Inr_iff)
  show ?case
  proof (cases n)
    case 0
    with Cons.prems(3) j' show ?thesis by (simp add: kp ms)
  next
    case (Suc n')
    with Cons.prems(2,3) have "n' < length ps" "ps ! n' = (k, p)" by simp_all
    from Cons.IH [OF ms' this] Suc show ?thesis by (simp add: ms)
  qed
qed

lemma marshal_Property_default:
  assumes "marshal_Property p = Inr j" and "Default p \<noteq> VNil"
  shows "\<exists>d. marshal_value (Default p) = Inr d \<and> json_at [Key ''default''] j = Some d"
  using assms by (auto simp: marshal_Property_def bind_res_Inr_iff omitempty_def)

lemma marshal_Schema_properties:
  assumes "marshal_Schema s = Inr j" and "Properties s \<noteq> []"
  shows "\<exists>ms. marshal_Properties (Properties s) = Inr ms
            \<and> json_at (Key ''properties'' # path) j = json_at path (JObject ms)"
  using assms by (auto simp: marshal_Schema_def bind_res_Inr_iff omitempty_def)

lemma marshal_Schema_property:
  assumes "marshal_Schema s = Inr j" and "map_of (encoded_keys (Properties s)) k = Some p"
  shows "\<exists>jp. marshal_Property p = Inr jp
            \<and> json_at (Key ''properties'' # Key k # path) j = json_at path jp"
proof -
  from assms(2) have ne: "Properties s \<noteq> []" by (auto simp: encoded_keys_def)
  from marshal_Schema_properties [OF assms(1) ne, of "Key k # path"] obtain ms where
    ms: "marshal_Properties (Properties s) = Inr ms"
    and 1: "json_at (Key ''properties'' # Key k # path) j = json_at (Key k # path) (JObject ms)"
    by blast
  from marshal_Properties_lookup [OF ms assms(2)] obtain jp where
    "map_of ms k = Some jp" "marshal_Property p = Inr jp" by blast
  with 1 show ?thesis by simp
qed

lemma marshal_Tool_schema:
  assumes "marshal_Tool t = Inr j"
  shows "\<exists>ins outs. marshal_Schema (Inputs t) = Inr ins \<and> marshal_Schema (Outputs t) = Inr outs
            \<and> json_at (Key ''inputs'' # path) j = json_at path ins
            \<and> json_at (Key ''outputs'' # path) j = json_at path outs"
  using assms by (auto simp: marshal_Tool_def bind_res_Inr_iff)

lemma marshal_Tools_nth:
  "map_res marshal_Tool ts = Inr js \<Longrightarrow> i < length ts \<Longrightarrow>
   length js = length ts \<and> marshal_Tool (ts ! i) = Inr (js ! i)"
proof (induction ts arbitrary: js i)
  case Nil
  then show ?case by simp
next
  case (Cons t ts)
  from Cons.prems(1) obtain j js' where j: "marshal_Tool t = Inr j"
    and js': "map_res marshal_Tool ts = Inr js'" and js: "js = j # js'"
    by (auto simp: bind_res_Inr_iff)
  show ?case
  proof (cases i)
    case 0
    have "length js' = length ts"
    proof (cases ts)
      case Nil
      with js' show ?thesis by simp
    next
      case (Cons a list)
      with Cons.IH [OF js', of 0] show ?thesis by simp
    qed
    with 0 j show ?thesis by (simp add: js)
  next
    case (Suc n)
    with Cons.prems(2) have "n < length ts" by simp
    from Cons.IH [OF js' this] Suc show ?thesis by (simp add: js)
  qed
qed

lemma ToJSON_tool:
  assumes "ToJSON m = Inr j" and "Tools m = Some ts" and "i < length ts"
  shows "\<exists>jt. marshal_Tool (ts ! i) = Inr jt
           \<and> json_at (Key ''tools'' # Index i # path) j = json_at path jt"
proof -
  from assms(1,2) obtain js where js: "map_res marshal_Tool ts = Inr js"
    and j: "j = JObject [(''version'', marshal_string (Version m)), (''tools'', JArray js)]"
    by (auto simp: ToJSON_marshal marshal_Manual_def marshal_Tools_def bind_res_Inr_iff)
  from marshal_Tools_nth [OF js assms(3)] assms(3) show ?thesis by (simp add: j)
qed

lemma ToJSON_schema:
  assumes "ToJSON m = Inr j" and "Tools m = Some ts" and "i < length ts"
    and "schema_of side (ts ! i) = Some sch"
  shows "\<exists>js. marshal_Schema sch = Inr js
           \<and> json_at (Key ''tools'' # Index i # Key side # path) j = json_at path js"
proof -
  from ToJSON_tool [OF assms(1-3), of "Key side # path"] obtain jt where
    jt: "marshal_Tool (ts ! i) = Inr jt"
    and 1: "json_at (Key ''tools'' # Index i # Key side # path) j = json_at (Key side # path) jt"
    by blast
  from marshal_Tool_schema [OF jt, of path] assms(4) 1 show ?thesis
    by (auto simp: schema_of_def split: if_splits)
qed

lemma ToJSON_default:
  assumes "ToJSON m = Inr j" and "Tools m = Some ts" and "i < length ts"
    and "schema_of side (ts ! i) = Some sch"
    and "map_of (encoded_keys (Properties sch)) k = Some p"
    and "Default p \<noteq> VNil"
  shows "\<exists>d. marshal_value (Default p) = Inr d \<and>
    json_at [Key ''tools'', Index i, Key side, Key ''properties'', Key k, Key ''default''] j
       = Some d"
proof -
  let ?path = "[Key ''properties'', Key k, Key ''default'']"
  from ToJSON_schema [OF assms(1-4), of ?path] obtain js where
    js: "marshal_Schema sch = Inr js"
    and 1: "json_at (Key ''tools'' # Index i # Key side # ?path) j = json_at ?path js"
    by blast
  from marshal_Schema_property [OF js assms(5), of "[Key ''default'']"] obtain jp where
    jp: "marshal_Property p = Inr jp" and 2: "json_at ?path js = json_at [Key ''default''] jp"
    by auto
  from marshal_Property_default [OF jp assms(6)] 1 2 show ?thesis by auto
qed

lemma ToJSON_default_nth:
  assumes "ToJSON m = Inr j" and "Tools m = Some ts" and "i < length ts"
    and "schema_of side (ts ! i) = Some sch"
    and "n < length (Properties sch)" and "Properties sch ! n = (k, p)"
    and "Default p \<noteq> VNil"
  shows "\<exists>ms jp d.
    json_at [Key ''tools'', Index i, Key side, Key ''properties''] j = Some (JObject ms)
    \<and> n < length ms \<and> ms ! n = (coerce_utf8 k, jp)
    \<and> marshal_value (Default p) = Inr d \<and> json_at [Key ''default''] jp = Some d"
proof -
  from ToJSON_schema [OF assms(1-4), of "[Key ''properties'']"] obtain js where
    js: "marshal_Schema sch = Inr js"
    and 1: "json_at [Key ''tools'', Index i, Key side, Key ''properties''] j
              = json_at [Key ''properties''] js"
    by auto
  from assms(5) have ne: "Properties sch \<noteq> []" by auto
  from marshal_Schema_properties [OF js ne, of "[]"] obtain ms where
    ms: "marshal_Properties (Properties sch) = Inr ms"
    and 2: "json_at [Key ''properties''] js = Some (JObject ms)"
    by auto
  from marshal_Properties_nth [OF ms assms(5,6)] obtain jp where
    n: "n < length ms" and jp: "ms ! n = (coerce_utf8 k, jp)" "marshal_Property p = Inr jp"
    by blast
  from marshal_Property_default [OF jp(2) assms(7)] obtain d where
    "marshal_value (Default p) = Inr d" "json_at [Key ''default''] jp = Some d" by blast
  with 1 2 n jp(1) show ?thesis by auto
qed

lemma ToJSON_falsy_manual: "ToJSON falsy_manual = Inr falsy_json"
  by (simp add: ToJSON_def MarshalIndent_def maxNestingDepth_def marshal_Manual_def
      marshal_Tools_def marshal_Tool_def marshal_Schema_def marshal_Property_def
      marshal_ToolProvider_def omitempty_def marshal_strings_def marshal_string_def
      coerce_utf8_def falsy_manual_def falsy_tool_def owned_property_def
      prefix_property_def startAt_property_def falsy_json_def test_tool_def zero_Schema_def
      AddTool_def NewManual_def)

text \<open>
  C2. In the document \<open>ToJSON\<close> writes for a manual, the property that the
  input or output schema of the tool at index \<open>i\<close> shows under the key \<open>k\<close>
  has the member \<^verbatim>\<open>"default"\<close> whenever its default is \<^verbatim>\<open>false\<close>, \<^verbatim>\<open>0\<close> or
  the empty string, and the member's value is that default. The member is
  there for every default that is not nil. The same holds by position, for
  every property of the schema, whatever its name: the member of the
  \<^verbatim>\<open>"properties"\<close> object at the position of a property with a non-nil
  default bears the property's name as the encoder writes it and holds
  \<^verbatim>\<open>"default"\<close> with the encoded default. (A property name is written like
  every string; \<open>encoded_keys\<close> is the identity on maps whose names are valid
  UTF-8.)
\<close>

theorem falsy_default_serialized:
  assumes "ToJSON m = Inr j" and "Tools m = Some ts" and "i < length ts"
    and "schema_of side (ts ! i) = Some sch"
    and "map_of (encoded_keys (Properties sch)) k = Some p"
  shows "(Default p = VBool False \<longrightarrow>
           json_at [Key ''tools'', Index i, Key side, Key ''properties'', Key k, Key ''default''] j
             = Some (JBool False))
       \<and> (Default p = VInt 0 \<longrightarrow>
           json_at [Key ''tools'', Index i, Key side, Key ''properties'', Key k, Key ''default''] j
             = Some (JNum 0))
       \<and> (Default p = VString [] \<longrightarrow>
           json_at [Key ''tools'', Index i, Key side, Key ''properties'', Key k, Key ''default''] j
             = Some (JString []))
       \<and> (Default p \<noteq> VNil \<longrightarrow>
           (\<exists>d. marshal_value (Default p) = Inr d \<and>
              json_at [Key ''tools'', Index i, Key side, Key ''properties'', Key k,
                       Key ''default''] j = Some d))
       \<and> (n < length (Properties sch) \<and> Properties sch ! n = (k', p') \<and> Default p' \<noteq> VNil
            \<longrightarrow>
           (\<exists>ms jp d.
              json_at [Key ''tools'', Index i, Key side, Key ''properties''] j
                = Some (JObject ms)
              \<and> n < length ms \<and> ms ! n = (coerce_utf8 k', jp)
              \<and> marshal_value (Default p') = Inr d
              \<and> json_at [Key ''default''] jp = Some d))"
proof -
  have by_key: "Default p \<noteq> VNil \<longrightarrow>
           (\<exists>d. marshal_value (Default p) = Inr d \<and>
              json_at [Key ''tools'', Index i, Key side, Key ''properties'', Key k,
                       Key ''default''] j = Some d)"
    using ToJSON_default [OF assms] by blast
  have by_position:
    "n < length (Properties sch) \<and> Properties sch ! n = (k', p') \<and> Default p' \<noteq> VNil
            \<longrightarrow>
           (\<exists>ms jp d.
              json_at [Key ''tools'', Index i, Key side, Key ''properties''] j
                = Some (JObject ms)
              \<and> n < length ms \<and> ms ! n = (coerce_utf8 k', jp)
              \<and> marshal_value (Default p') = Inr d
              \<and> json_at [Key ''default''] jp = Some d)"
    using ToJSON_default_nth [OF assms(1-4)] by blast
  from by_key have
    "Default p = VBool False \<longrightarrow>
       json_at [Key ''tools'', Index i, Key side, Key ''properties'', Key k, Key ''default''] j
         = Some (JBool False)"
    "Default p = VInt 0 \<longrightarrow>
       json_at [Key ''tools'', Index i, Key side, Key ''properties'', Key k, Key ''default''] j
         = Some (JNum 0)"
    "Default p = VString [] \<longrightarrow>
       json_at [Key ''tools'', Index i, Key side, Key ''properties'', Key k, Key ''default''] j
         = Some (JString [])"
    by (auto simp: coerce_utf8_def)
  with by_key by_position show ?thesis by blast
qed

text \<open>
  The three properties of \<open>falsy_tool\<close>: each has its \<^verbatim>\<open>"default"\<close> member
  in the document, found by its key and by its position.
\<close>

theorem falsy_default_serialized_witness:
  "ToJSON falsy_manual = Inr falsy_json
   \<and> Tools falsy_manual = Some [falsy_tool]
   \<and> schema_of ''inputs'' ([falsy_tool] ! 0) = Some (Inputs falsy_tool)
   \<and> map_of (encoded_keys (Properties (Inputs falsy_tool))) ''owned'' = Some owned_property
   \<and> Default owned_property = VBool False
   \<and> json_at [Key ''tools'', Index 0, Key ''inputs'', Key ''properties'', Key ''owned'',
              Key ''default''] falsy_json = Some (JBool False)
   \<and> map_of (encoded_keys (Properties (Inputs falsy_tool))) ''startAt''
       = Some startAt_property
   \<and> Default startAt_property = VInt 0
   \<and> json_at [Key ''tools'', Index 0, Key ''inputs'', Key ''properties'', Key ''startAt'',
              Key ''default''] falsy_json = Some (JNum 0)
   \<and> map_of (encoded_keys (Properties (Inputs falsy_tool))) ''prefix''
       = Some prefix_property
   \<and> Default prefix_property = VString []
   \<and> json_at [Key ''tools'', Index 0, Key ''inputs'', Key ''properties'', Key ''prefix'',
              Key ''default''] falsy_json = Some (JString [])
   \<and> Properties (Inputs falsy_tool) ! 2 = (''startAt'', startAt_property)
   \<and> (\<exists>ms jp.
        json_at [Key ''tools'', Index 0, Key ''inputs'', Key ''properties''] falsy_json
          = Some (JObject ms)
        \<and> ms ! 2 = (''startAt'', jp) \<and> json_at [Key ''default''] jp = Some (JNum 0))"
proof -
  have t: "Tools falsy_manual = Some [falsy_tool]"
    by (simp add: falsy_manual_def AddTool_def NewManual_def)
  have l: "(0::nat) < length [falsy_tool]" by simp
  have s: "schema_of ''inputs'' ([falsy_tool] ! 0) = Some (Inputs falsy_tool)"
    by (simp add: schema_of_def)
  have p1: "map_of (encoded_keys (Properties (Inputs falsy_tool))) ''owned''
              = Some owned_property"
    and p2: "map_of (encoded_keys (Properties (Inputs falsy_tool))) ''startAt''
              = Some startAt_property"
    and p3: "map_of (encoded_keys (Properties (Inputs falsy_tool))) ''prefix''
              = Some prefix_property"
    by (simp_all add: falsy_tool_def encoded_keys_def coerce_utf8_def)
  have d1: "Default owned_property = VBool False"
    and d2: "Default startAt_property = VInt 0"
    and d3: "Default prefix_property = VString []"
    by (simp_all add: owned_property_def startAt_property_def prefix_property_def)
  have n: "(2::nat) < length (Properties (Inputs falsy_tool))"
    and pn: "Properties (Inputs falsy_tool) ! 2 = (''startAt'', startAt_property)"
    by (simp_all add: falsy_tool_def)
  have c: "coerce_utf8 ''startAt'' = ''startAt''" by (simp add: coerce_utf8_def)
  from falsy_default_serialized [OF ToJSON_falsy_manual t l s p1] d1
  have j1: "json_at [Key ''tools'', Index 0, Key ''inputs'', Key ''properties'', Key ''owned'',
              Key ''default''] falsy_json = Some (JBool False)"
    by blast
  from falsy_default_serialized [OF ToJSON_falsy_manual t l s p2] d2
  have j2: "json_at [Key ''tools'', Index 0, Key ''inputs'', Key ''properties'', Key ''startAt'',
              Key ''default''] falsy_json = Some (JNum 0)"
    by blast
  from falsy_default_serialized [OF ToJSON_falsy_manual t l s p3] d3
  have j3: "json_at [Key ''tools'', Index 0, Key ''inputs'', Key ''properties'', Key ''prefix'',
              Key ''default''] falsy_json = Some (JString [])"
    by blast
  from falsy_default_serialized [OF ToJSON_falsy_manual t l s p1,
      of 2 "''startAt''" startAt_property] n pn d2
  have "\<exists>ms jp d.
      json_at [Key ''tools'', Index 0, Key ''inputs'', Key ''properties''] falsy_json
        = Some (JObject ms)
      \<and> 2 < length ms \<and> ms ! 2 = (coerce_utf8 ''startAt'', jp)
      \<and> marshal_value (VInt 0) = Inr d \<and> json_at [Key ''default''] jp = Some d"
    by simp
  then have j4: "\<exists>ms jp.
        json_at [Key ''tools'', Index 0, Key ''inputs'', Key ''properties''] falsy_json
          = Some (JObject ms)
        \<and> ms ! 2 = (''startAt'', jp) \<and> json_at [Key ''default''] jp = Some (JNum 0)"
    unfolding c by auto
  from ToJSON_falsy_manual t s p1 d1 j1 p2 d2 j2 p3 d3 j3 pn j4 show ?thesis by blast
qed

subsection \<open>Decoding what was encoded\<close>

lemma unmarshal_strings_marshal:
  "unmarshal_strings (marshal_strings xs) = Inr (map coerce_utf8 xs)"
proof -
  have "map_res unmarshal_string (map marshal_string xs) = Inr (map coerce_utf8 xs)"
    by (induction xs) (simp_all add: marshal_string_def)
  then show ?thesis by (simp add: marshal_strings_def)
qed

lemma unmarshal_Property_marshal:
  assumes "marshal_Property p = Inr j"
  shows "\<exists>p'. unmarshal_Property j = Inr p'"
proof -
  from assms obtain d where d: "marshal_value (Default p) = Inr d"
    and j: "j = JObject
         ([(''type'', marshal_string (Property.Type p)),
           (''description'', marshal_string (Property.Description p))]
          @ omitempty (Enum p = []) ''enum'' (marshal_strings (Enum p))
          @ omitempty (Default p = VNil) ''default'' d)"
    by (auto simp: marshal_Property_def bind_res_Inr_iff)
  have e: "\<exists>xs. unmarshal_strings (member ''enum''
         ([(''type'', marshal_string (Property.Type p)),
           (''description'', marshal_string (Property.Description p))]
          @ omitempty (Enum p = []) ''enum'' (marshal_strings (Enum p))
          @ omitempty (Default p = VNil) ''default'' d)) = Inr xs"
    by (simp add: member_omitempty unmarshal_strings_marshal omitempty_def)
  show ?thesis unfolding j using e by (auto simp: member_omitempty marshal_string_def)
qed

lemma unmarshal_Properties_marshal:
  "marshal_Properties ps = Inr ms \<Longrightarrow>
   \<exists>ps'. map_res (\<lambda>(k, j). bind_res (unmarshal_Property j) (\<lambda>p. Inr (k, p))) ms = Inr ps'"
proof (induction ps arbitrary: ms)
  case Nil
  then show ?case by simp
next
  case (Cons kp ps)
  obtain k p where kp: "kp = (k, p)" by (cases kp)
  from Cons.prems obtain j ms' where j: "marshal_Property p = Inr j"
    and ms': "marshal_Properties ps = Inr ms'" and ms: "ms = (coerce_utf8 k, j) # ms'"
    by (auto simp: kp bind_res_Inr_iff)
  from unmarshal_Property_marshal [OF j] obtain p' where "unmarshal_Property j = Inr p'" ..
  moreover from Cons.IH [OF ms'] obtain ps' where
    "map_res (\<lambda>(k, j). bind_res (unmarshal_Property j) (\<lambda>p. Inr (k, p))) ms' = Inr ps'" ..
  ultimately show ?case by (simp add: ms)
qed

lemma unmarshal_Schema_marshal:
  assumes "marshal_Schema s = Inr j"
  shows "\<exists>s'. unmarshal_Schema j = Inr s'"
proof -
  from assms obtain ps where ps: "marshal_Properties (Properties s) = Inr ps"
    and j: "j = JObject
         ([(''type'', marshal_string (Schema.Type s))]
          @ omitempty (Properties s = []) ''properties'' (JObject ps)
          @ omitempty (Required s = []) ''required'' (marshal_strings (Required s))
          @ omitempty (Schema.Description s = []) ''description''
              (marshal_string (Schema.Description s))
          @ omitempty (Title s = []) ''title'' (marshal_string (Title s)))"
    by (auto simp: marshal_Schema_def bind_res_Inr_iff)
  from unmarshal_Properties_marshal [OF ps] obtain ps' where
    ps': "unmarshal_Properties (JObject ps) = Inr ps'" by auto
  show ?thesis unfolding j using ps'
    by (simp add: member_omitempty unmarshal_strings_marshal omitempty_def marshal_string_def)
qed

lemma unmarshal_ToolProvider_marshal:
  "marshal_ToolProvider tp = Inr j \<Longrightarrow> \<exists>tp'. unmarshal_ToolProvider j = Inr tp'"
  by (auto simp: marshal_ToolProvider_def bind_res_Inr_iff split: option.splits)

lemma unmarshal_Tool_marshal:
  assumes "marshal_Tool t = Inr j"
  shows "\<exists>t'. unmarshal_Tool j = Inr t' \<and> Tool.Name t' = coerce_utf8 (Tool.Name t)"
proof -
  from assms obtain ins outs tp where ins: "marshal_Schema (Inputs t) = Inr ins"
    and outs: "marshal_Schema (Outputs t) = Inr outs"
    and tp: "marshal_ToolProvider (ToolProvider t) = Inr tp"
    and j: "j = JObject
         ([(''name'', marshal_string (Tool.Name t)),
           (''description'', marshal_string (Tool.Description t)),
           (''inputs'', ins),
           (''outputs'', outs)]
          @ omitempty (Tags t = []) ''tags'' (marshal_strings (Tags t))
          @ omitempty (AverageResponseSize t = 0) ''average_response_size''
              (JNum (AverageResponseSize t))
          @ [(''tool_provider'', tp)])"
    by (auto simp: marshal_Tool_def bind_res_Inr_iff)
  from unmarshal_Schema_marshal [OF ins] obtain ins' where
    i: "unmarshal_Schema ins = Inr ins'" ..
  from unmarshal_Schema_marshal [OF outs] obtain outs' where
    out: "unmarshal_Schema outs = Inr outs'" ..
  from unmarshal_ToolProvider_marshal [OF tp] obtain tp' where
    t: "unmarshal_ToolProvider tp = Inr tp'" ..
  show ?thesis unfolding j using i out t
    by (simp add: member_omitempty unmarshal_strings_marshal omitempty_def marshal_string_def)
qed

lemma unmarshal_Tools_marshal:
  "map_res marshal_Tool ts = Inr js \<Longrightarrow>
   \<exists>ts'. map_res unmarshal_Tool js = Inr ts'
        \<and> map Tool.Name ts' = map coerce_utf8 (map Tool.Name ts)"
proof (induction ts arbitrary: js)
  case Nil
  then show ?case by simp
next
  case (Cons t ts)
  from Cons.prems obtain j js' where j: "marshal_Tool t = Inr j"
    and js': "map_res marshal_Tool ts = Inr js'" and js: "js = j # js'"
    by (auto simp: bind_res_Inr_iff)
  from unmarshal_Tool_marshal [OF j] obtain t' where
    "unmarshal_Tool j = Inr t'" "Tool.Name t' = coerce_utf8 (Tool.Name t)" by blast
  moreover from Cons.IH [OF js'] obtain ts' where
    "map_res unmarshal_Tool js' = Inr ts'"
    "map Tool.Name ts' = map coerce_utf8 (map Tool.Name ts)" by blast
  ultimately show ?case by (simp add: js)
qed

lemma Unmarshal_ToJSON:
  assumes "ToJSON m = Inr j"
  shows "\<exists>m'. Unmarshal j = Inr m'
            \<and> Version m' = coerce_utf8 (Version m)
            \<and> tool_names m' = map coerce_utf8 (tool_names m)"
proof (cases "Tools m")
  case None
  with assms have "j = JObject [(''version'', marshal_string (Version m)), (''tools'', JNull)]"
    and "json_depth j \<le> maxNestingDepth"
    by (auto simp: ToJSON_marshal marshal_Manual_def marshal_Tools_def)
  then show ?thesis by (simp add: Unmarshal_def tool_names_def None marshal_string_def)
next
  case (Some ts)
  with assms obtain js where js: "map_res marshal_Tool ts = Inr js"
    and j: "j = JObject [(''version'', marshal_string (Version m)), (''tools'', JArray js)]"
    and d: "json_depth j \<le> maxNestingDepth"
    by (auto simp: ToJSON_marshal marshal_Manual_def marshal_Tools_def bind_res_Inr_iff)
  from unmarshal_Tools_marshal [OF js] obtain ts' where
    "map_res unmarshal_Tool js = Inr ts'"
    "map Tool.Name ts' = map coerce_utf8 (map Tool.Name ts)" by blast
  with d show ?thesis
    unfolding Unmarshal_def by (simp add: j tool_names_def Some marshal_string_def)
qed

text \<open>
  C8 as stated fails: the manual whose version is the byte FF is encoded and
  decoded without error, and the version that comes back is U+FFFD, the bytes
  EF BF BD.
\<close>

theorem ToJSON_roundtrip_invalid_utf8:
  "ToJSON invalid_manual
     = Inr (JObject [(''version'', JString [CHR 0xEF, CHR 0xBF, CHR 0xBD]),
                     (''tools'', JArray [])])
   \<and> Unmarshal (JObject [(''version'', JString [CHR 0xEF, CHR 0xBF, CHR 0xBD]),
                         (''tools'', JArray [])])
       = Inr \<lparr>Version = [CHR 0xEF, CHR 0xBF, CHR 0xBD], Tools = Some []\<rparr>
   \<and> Version \<lparr>Version = [CHR 0xEF, CHR 0xBF, CHR 0xBD], Tools = Some []\<rparr>
       \<noteq> Version invalid_manual"
  by (simp add: ToJSON_def MarshalIndent_def Unmarshal_def maxNestingDepth_def
      marshal_Manual_def marshal_Tools_def marshal_string_def coerce_utf8_def replacement_def
      invalid_manual_def)

text \<open>
  C8, amended. When \<open>ToJSON\<close> returns a document for a manual, decoding the
  document into a manual succeeds and gives the version and the tool names, in
  the same order, each as the encoder writes it: with every byte that is not
  part of a valid UTF-8 encoding replaced by U+FFFD. So a manual whose version
  is valid UTF-8 gets the same version back, and a manual whose tool names are
  valid UTF-8 gets the same names back in the same order.
\<close>

theorem ToJSON_roundtrip:
  assumes "ToJSON m = Inr j"
  shows "\<exists>m'. Unmarshal j = Inr m'
            \<and> Version m' = coerce_utf8 (Version m)
            \<and> tool_names m' = map coerce_utf8 (tool_names m)
            \<and> (ValidString (Version m) \<longrightarrow> Version m' = Version m)
            \<and> (list_all ValidString (tool_names m) \<longrightarrow> tool_names m' = tool_names m)"
proof -
  from Unmarshal_ToJSON [OF assms] obtain m' where m': "Unmarshal j = Inr m'"
    "Version m' = coerce_utf8 (Version m)"
    "tool_names m' = map coerce_utf8 (tool_names m)"
    by blast
  then have "ValidString (Version m) \<longrightarrow> Version m' = Version m"
    and "list_all ValidString (tool_names m) \<longrightarrow> tool_names m' = tool_names m"
    by (simp_all add: coerce_utf8_valid map_coerce_utf8_valid)
  with m' show ?thesis by blast
qed

lemma ordered_manual_names:
  "Version ordered_manual = ''0.1.0''"
  "tool_names ordered_manual = [''zeta'', ''list_projects'', ''alpha'']"
  by (simp_all add: tool_names_def ordered_manual_def AddTool_def NewManual_def falsy_tool_def
      test_tool_def)

lemma ToJSON_ordered_manual: "\<exists>j. ToJSON ordered_manual = Inr j"
  by (simp add: ToJSON_def MarshalIndent_def maxNestingDepth_def marshal_Manual_def
      marshal_Tools_def marshal_Tool_def marshal_Schema_def marshal_Property_def
      marshal_ToolProvider_def omitempty_def marshal_strings_def marshal_string_def
      ordered_manual_def falsy_tool_def owned_property_def prefix_property_def
      startAt_property_def test_tool_def zero_Schema_def AddTool_def NewManual_def)

text \<open>
  A manual of three tools named zeta, list_projects and alpha, in that order:
  the version and the three names come back, in that order.
\<close>

theorem ToJSON_roundtrip_witness:
  "ValidString (Version ordered_manual)
   \<and> list_all ValidString (tool_names ordered_manual)
   \<and> (\<exists>j m'. ToJSON ordered_manual = Inr j \<and> Unmarshal j = Inr m'
          \<and> Version m' = ''0.1.0''
          \<and> tool_names m' = [''zeta'', ''list_projects'', ''alpha''])"
proof -
  have v: "ValidString (Version ordered_manual)"
    and n: "list_all ValidString (tool_names ordered_manual)"
    by (simp_all add: ordered_manual_names ValidString_def)
  from ToJSON_ordered_manual obtain j where j: "ToJSON ordered_manual = Inr j" ..
  from ToJSON_roundtrip [OF j] v n obtain m' where
    "Unmarshal j = Inr m'" "Version m' = Version ordered_manual"
    "tool_names m' = tool_names ordered_manual"
    by blast
  with j have "\<exists>j m'. ToJSON ordered_manual = Inr j \<and> Unmarshal j = Inr m'
          \<and> Version m' = ''0.1.0''
          \<and> tool_names m' = [''zeta'', ''list_projects'', ''alpha'']"
    by (auto simp: ordered_manual_names)
  with v n show ?thesis by blast
qed

subsection \<open>When the encoder returns a document\<close>

lemma marshal_value_encodable:
  "(\<exists>j. marshal_value v = Inr j) \<longleftrightarrow> encodable v"
  "(\<exists>js. marshal_values vs = Inr js) \<longleftrightarrow> encodable_values vs"
  "(\<exists>ms. marshal_entries es = Inr ms) \<longleftrightarrow> encodable_entries es"
  by (induction v and vs and es rule: marshal_value_marshal_values_marshal_entries.induct)
    (auto simp: bind_res_Inr_iff)

lemma marshal_Property_encodable:
  "(\<exists>j. marshal_Property p = Inr j) \<longleftrightarrow> encodable (Default p)"
  using marshal_value_encodable(1) [of "Default p"]
  by (auto simp: marshal_Property_def bind_res_Inr_iff)

lemma marshal_Properties_encodable:
  "(\<exists>ms. marshal_Properties ps = Inr ms) \<longleftrightarrow> list_all (\<lambda>(k, p). encodable (Default p)) ps"
proof (induction ps)
  case Nil
  then show ?case by simp
next
  case (Cons kp ps)
  obtain k p where kp: "kp = (k, p)" by (cases kp)
  from Cons marshal_Property_encodable [of p] show ?case
    by (auto simp: kp bind_res_Inr_iff)
qed

lemma marshal_Schema_encodable:
  "(\<exists>j. marshal_Schema s = Inr j) \<longleftrightarrow> encodable_Schema s"
  using marshal_Properties_encodable [of "Properties s"]
  by (auto simp: marshal_Schema_def encodable_Schema_def bind_res_Inr_iff)

lemma marshal_ToolProvider_encodable:
  "(\<exists>j. marshal_ToolProvider tp = Inr j)
     \<longleftrightarrow> (case tp of None \<Rightarrow> True | Some es \<Rightarrow> encodable_entries es)"
  using marshal_value_encodable(3)
  by (auto simp: marshal_ToolProvider_def bind_res_Inr_iff split: option.splits)

lemma marshal_Tool_encodable:
  "(\<exists>j. marshal_Tool t = Inr j) \<longleftrightarrow> encodable_Tool t"
  using marshal_Schema_encodable [of "Inputs t"] marshal_Schema_encodable [of "Outputs t"]
    marshal_ToolProvider_encodable [of "ToolProvider t"]
  by (auto simp: marshal_Tool_def encodable_Tool_def bind_res_Inr_iff)

lemma marshal_Tool_list_encodable:
  "(\<exists>js. map_res marshal_Tool ts = Inr js) \<longleftrightarrow> list_all encodable_Tool ts"
proof (induction ts)
  case Nil
  then show ?case by simp
next
  case (Cons t ts)
  from Cons marshal_Tool_encodable [of t] show ?case
    by (auto simp: bind_res_Inr_iff)
qed

text \<open>
  The encoder returns a document exactly for the manuals whose dynamic values
  can all be encoded, and \<open>ToJSON\<close> returns it exactly when it nests no deeper
  than the scanner allows.
\<close>

lemma marshal_Manual_succeeds_iff:
  "(\<exists>j. marshal_Manual m = Inr j) \<longleftrightarrow> encodable_Manual m"
proof (cases "Tools m")
  case None
  then show ?thesis
    by (simp add: marshal_Manual_def marshal_Tools_def encodable_Manual_def)
next
  case (Some ts)
  have "(\<exists>j. marshal_Manual m = Inr j) \<longleftrightarrow> (\<exists>js. map_res marshal_Tool ts = Inr js)"
    by (auto simp: marshal_Manual_def marshal_Tools_def Some bind_res_Inr_iff)
  with marshal_Tool_list_encodable [of ts] show ?thesis
    by (simp add: encodable_Manual_def Some)
qed

lemma ToJSON_succeeds_iff:
  "(\<exists>j. ToJSON m = Inr j) \<longleftrightarrow>
     encodable_Manual m
     \<and> (\<forall>b. marshal_Manual m = Inr b \<longrightarrow> json_depth b \<le> maxNestingDepth)"
  using marshal_Manual_succeeds_iff [of m] by (auto simp: ToJSON_marshal)

text \<open>
  The document nests at most seven levels deeper than the manual's dynamic
  values, so \<open>ToJSON\<close> returns a document for every manual whose dynamic
  values can be encoded and nest no deeper than the limit less seven.
\<close>

lemma json_depth_marshal_value:
  "marshal_value v = Inr j \<Longrightarrow> json_depth j = value_depth v"
  "marshal_values vs = Inr js \<Longrightarrow> json_depths js = values_depth vs"
  "marshal_entries es = Inr ms \<Longrightarrow> member_depths ms = entries_depth es"
  by (induction v and vs and es arbitrary: j and js and ms
      rule: marshal_value_marshal_values_marshal_entries.induct)
    (auto simp: bind_res_Inr_iff)

lemma json_depths_strings [simp]: "json_depths (map marshal_string xs) = 0"
  by (induction xs) (simp_all add: marshal_string_def)

lemma member_depths_append [simp]:
  "member_depths (xs @ ys) = max (member_depths xs) (member_depths ys)"
  by (induction xs) auto

lemma json_depth_marshal_Property:
  "marshal_Property p = Inr j \<Longrightarrow> json_depth j \<le> 2 + value_depth (Default p)"
  by (auto simp: marshal_Property_def bind_res_Inr_iff omitempty_def marshal_strings_def
      marshal_string_def dest!: json_depth_marshal_value(1))

lemma json_depth_marshal_Properties:
  "marshal_Properties ps = Inr ms \<Longrightarrow> member_depths ms \<le> 2 + properties_depth ps"
proof (induction ps arbitrary: ms)
  case Nil
  then show ?case by simp
next
  case (Cons kp ps)
  obtain k p where kp: "kp = (k, p)" by (cases kp)
  from Cons.prems obtain j ms' where j: "marshal_Property p = Inr j"
    and ms': "marshal_Properties ps = Inr ms'" and ms: "ms = (coerce_utf8 k, j) # ms'"
    by (auto simp: kp bind_res_Inr_iff)
  from json_depth_marshal_Property [OF j] Cons.IH [OF ms'] show ?case
    by (auto simp: ms kp max_def)
qed

lemma json_depth_marshal_Schema:
  "marshal_Schema s = Inr j \<Longrightarrow> json_depth j \<le> 4 + properties_depth (Properties s)"
  by (auto simp: marshal_Schema_def bind_res_Inr_iff omitempty_def marshal_strings_def
      marshal_string_def dest!: json_depth_marshal_Properties)

lemma json_depth_marshal_ToolProvider:
  "marshal_ToolProvider tp = Inr j \<Longrightarrow>
   json_depth j \<le> 1 + (case tp of None \<Rightarrow> 0 | Some es \<Rightarrow> entries_depth es)"
  by (auto simp: marshal_ToolProvider_def bind_res_Inr_iff split: option.splits
      dest!: json_depth_marshal_value(3))

lemma json_depth_marshal_Tool:
  assumes "marshal_Tool t = Inr j"
  shows "json_depth j \<le> 5 + tool_depth t"
proof -
  from assms obtain ins outs tp where ins: "marshal_Schema (Inputs t) = Inr ins"
    and outs: "marshal_Schema (Outputs t) = Inr outs"
    and tp: "marshal_ToolProvider (ToolProvider t) = Inr tp"
    and j: "j = JObject
         ([(''name'', marshal_string (Tool.Name t)),
           (''description'', marshal_string (Tool.Description t)),
           (''inputs'', ins),
           (''outputs'', outs)]
          @ omitempty (Tags t = []) ''tags'' (marshal_strings (Tags t))
          @ omitempty (AverageResponseSize t = 0) ''average_response_size''
              (JNum (AverageResponseSize t))
          @ [(''tool_provider'', tp)])"
    by (auto simp: marshal_Tool_def bind_res_Inr_iff)
  from json_depth_marshal_Schema [OF ins] json_depth_marshal_Schema [OF outs]
    json_depth_marshal_ToolProvider [OF tp]
  show ?thesis
    by (auto simp: j tool_depth_def omitempty_def marshal_strings_def marshal_string_def)
qed

lemma json_depths_marshal_Tools:
  "map_res marshal_Tool ts = Inr js \<Longrightarrow> json_depths js \<le> 5 + tools_depth ts"
proof (induction ts arbitrary: js)
  case Nil
  then show ?case by simp
next
  case (Cons t ts)
  from Cons.prems obtain j js' where j: "marshal_Tool t = Inr j"
    and js': "map_res marshal_Tool ts = Inr js'" and js: "js = j # js'"
    by (auto simp: bind_res_Inr_iff)
  from json_depth_marshal_Tool [OF j] Cons.IH [OF js'] show ?case
    by (auto simp: js max_def)
qed

lemma json_depth_marshal_Manual:
  "marshal_Manual m = Inr b \<Longrightarrow> json_depth b \<le> 7 + manual_depth m"
  by (auto simp: marshal_Manual_def marshal_Tools_def bind_res_Inr_iff manual_depth_def
      marshal_string_def split: option.splits dest!: json_depths_marshal_Tools)

lemma ToJSON_succeeds:
  assumes "encodable_Manual m" and "7 + manual_depth m \<le> maxNestingDepth"
  shows "\<exists>j. ToJSON m = Inr j"
proof -
  from assms(1) obtain b where b: "marshal_Manual m = Inr b"
    using marshal_Manual_succeeds_iff [of m] by blast
  from json_depth_marshal_Manual [OF b] assms(2) have "json_depth b \<le> maxNestingDepth"
    by simp
  with b show ?thesis by (auto simp: ToJSON_marshal)
qed

section \<open>Configuration: theorems\<close>

lemma provider_invalid_iff:
  "provider_invalid p \<longleftrightarrow> ProviderConfig_Validate p \<noteq> None"
  by (auto simp: ProviderConfig_Validate_def provider_invalid_def auth_incomplete_def)

lemma validate_loop_None_iff:
  "validate_loop ps = None \<longleftrightarrow> (\<forall>p\<in>set ps. \<not> provider_invalid p)"
  by (induction ps) (auto simp: provider_invalid_iff split: option.splits)

lemma validate_loop_first:
  assumes "\<forall>q\<in>set ps. \<not> provider_invalid q" and "ProviderConfig_Validate p = Some err"
  shows "validate_loop (ps @ p # qs) =
           Some (WrapError (''provider '' @ ProviderConfig.Name p @ '': '' @ Error err) err)"
  using assms
  by (induction ps) (auto simp: provider_invalid_iff Errorf_w_def split: option.splits)

text \<open>
  C5 as stated fails: a disabled provider whose basic auth has no user name
  passes validation, alone and in a configuration.
\<close>

theorem Validate_skips_disabled_auth:
  "\<not> Enabled disabled_jira
   \<and> AuthConfig.Type (Auth disabled_jira) = ''basic''
   \<and> Username (Auth disabled_jira) = []
   \<and> ProviderConfig_Validate disabled_jira = None
   \<and> Config_Validate \<lparr>Server = test_server, Providers = [disabled_jira]\<rparr> = None"
  by (simp add: Config_Validate_def ProviderConfig_Validate_def disabled_jira_def
      jira_config_def zero_AuthConfig_def test_server_def)

text \<open>
  C5, amended. \<open>Config.Validate\<close> fails exactly when the server port is empty
  or some provider has no name, no type, or is enabled and has no base URL or
  lacks a field its declared auth variant requires (the auth variant of a
  disabled provider is not looked at). With a port, the error is the one of the
  first such provider in the list, wrapped in a message that names that
  provider. The scenario's provider passes; without its user name it fails with
  the message about the user name and password.
\<close>

theorem Config_Validate_checks:
  "(Config_Validate c \<noteq> None \<longleftrightarrow>
      Port (Server c) = [] \<or> (\<exists>p\<in>set (Providers c). provider_invalid p))
   \<and> (Port (Server c) \<noteq> [] \<and> Providers c = ps @ p # qs
        \<and> (\<forall>q\<in>set ps. \<not> provider_invalid q) \<and> provider_invalid p \<longrightarrow>
      (\<exists>err. ProviderConfig_Validate p = Some err
         \<and> Config_Validate c =
             Some (WrapError (''provider '' @ ProviderConfig.Name p @ '': '' @ Error err) err)))
   \<and> ProviderConfig_Validate jira_config = None
   \<and> ProviderConfig_Validate (jira_config\<lparr>Auth := (Auth jira_config)\<lparr>Username := []\<rparr>\<rparr>)
       = Some (ErrorString ''username and password required for basic auth'')"
proof -
  have 1: "Config_Validate c \<noteq> None \<longleftrightarrow>
      Port (Server c) = [] \<or> (\<exists>p\<in>set (Providers c). provider_invalid p)"
    using validate_loop_None_iff [of "Providers c"] by (auto simp: Config_Validate_def)
  have 2: "Port (Server c) \<noteq> [] \<and> Providers c = ps @ p # qs
        \<and> (\<forall>q\<in>set ps. \<not> provider_invalid q) \<and> provider_invalid p \<longrightarrow>
      (\<exists>err. ProviderConfig_Validate p = Some err
         \<and> Config_Validate c =
             Some (WrapError (''provider '' @ ProviderConfig.Name p @ '': '' @ Error err) err))"
  proof (intro impI, elim conjE)
    assume port: "Port (Server c) \<noteq> []" and c: "Providers c = ps @ p # qs"
      and ps: "\<forall>q\<in>set ps. \<not> provider_invalid q" and p: "provider_invalid p"
    from p obtain err where err: "ProviderConfig_Validate p = Some err"
      by (auto simp: provider_invalid_iff)
    from validate_loop_first [OF ps err, of qs] port c err
    show "\<exists>err. ProviderConfig_Validate p = Some err
         \<and> Config_Validate c =
             Some (WrapError (''provider '' @ ProviderConfig.Name p @ '': '' @ Error err) err)"
      by (simp add: Config_Validate_def)
  qed
  have 3: "ProviderConfig_Validate jira_config = None"
    by (simp add: ProviderConfig_Validate_def jira_config_def zero_AuthConfig_def)
  have 4: "ProviderConfig_Validate (jira_config\<lparr>Auth := (Auth jira_config)\<lparr>Username := []\<rparr>\<rparr>)
       = Some (ErrorString ''username and password required for basic auth'')"
    by (simp add: ProviderConfig_Validate_def jira_config_def zero_AuthConfig_def)
  from 1 2 3 4 show ?thesis by blast
qed

text \<open>
  A configuration of two providers, the second without its user name: the
  error names the second provider.
\<close>

theorem Config_Validate_checks_witness:
  "Port (Server \<lparr>Server = test_server,
        Providers = [jira_config, jira_config\<lparr>Auth := (Auth jira_config)\<lparr>Username := []\<rparr>\<rparr>]\<rparr>)
     \<noteq> []
   \<and> \<not> provider_invalid jira_config
   \<and> provider_invalid (jira_config\<lparr>Auth := (Auth jira_config)\<lparr>Username := []\<rparr>\<rparr>)
   \<and> Config_Validate \<lparr>Server = test_server,
        Providers = [jira_config, jira_config\<lparr>Auth := (Auth jira_config)\<lparr>Username := []\<rparr>\<rparr>]\<rparr>
       = Some (WrapError ''provider jira: username and password required for basic auth''
                (ErrorString ''username and password required for basic auth''))"
proof -
  let ?bad = "jira_config\<lparr>Auth := (Auth jira_config)\<lparr>Username := []\<rparr>\<rparr>"
  let ?c = "\<lparr>Server = test_server, Providers = [jira_config, ?bad]\<rparr>"
  have port: "Port (Server ?c) \<noteq> []" by (simp add: test_server_def)
  have ok: "\<not> provider_invalid jira_config"
    by (simp add: provider_invalid_def auth_incomplete_def jira_config_def zero_AuthConfig_def)
  have bad: "provider_invalid ?bad"
    by (simp add: provider_invalid_def auth_incomplete_def jira_config_def zero_AuthConfig_def)
  have n: "ProviderConfig.Name ?bad = ''jira''" by (simp add: jira_config_def)
  from Config_Validate_checks [of ?c "[jira_config]" ?bad "[]"] port ok bad
  have "Config_Validate ?c
       = Some (WrapError (''provider '' @ ProviderConfig.Name ?bad @ '': ''
                  @ Error (ErrorString ''username and password required for basic auth''))
                (ErrorString ''username and password required for basic auth''))"
    by auto
  with port ok bad n show ?thesis by simp
qed

text \<open>
  C10. A provider configuration with a name and a type, with a base URL when
  it is enabled, and with an auth kind that is none of \<^verbatim>\<open>basic\<close>,
  \<^verbatim>\<open>api_key\<close>, \<^verbatim>\<open>personal_token\<close> and \<^verbatim>\<open>oauth2\<close> passes validation,
  whatever its auth fields hold.
\<close>

theorem unknown_auth_kind_passes:
  assumes "ProviderConfig.Name p \<noteq> []" and "ProviderConfig.Type p \<noteq> []"
    and "Enabled p \<longrightarrow> BaseURL p \<noteq> []"
    and "AuthConfig.Type (Auth p) \<notin> {''basic'', ''api_key'', ''personal_token'', ''oauth2''}"
  shows "ProviderConfig_Validate p = None"
  using assms by (simp add: ProviderConfig_Validate_def)

text \<open>An enabled provider of auth kind \<^verbatim>\<open>kerberos\<close> with every auth field empty.\<close>

theorem unknown_auth_kind_passes_witness:
  "ProviderConfig.Name kerberos_config \<noteq> [] \<and> ProviderConfig.Type kerberos_config \<noteq> []
   \<and> Enabled kerberos_config \<and> BaseURL kerberos_config \<noteq> []
   \<and> AuthConfig.Type (Auth kerberos_config) = ''kerberos''
   \<and> Username (Auth kerberos_config) = [] \<and> Password (Auth kerberos_config) = []
   \<and> ProviderConfig_Validate kerberos_config = None"
proof -
  have 1: "ProviderConfig.Name kerberos_config \<noteq> []"
    and 2: "ProviderConfig.Type kerberos_config \<noteq> []"
    and 3: "Enabled kerberos_config" and 4: "BaseURL kerberos_config \<noteq> []"
    and 5: "AuthConfig.Type (Auth kerberos_config) = ''kerberos''"
    and 6: "Username (Auth kerberos_config) = []" and 7: "Password (Auth kerberos_config) = []"
    by (simp_all add: kerberos_config_def jira_config_def zero_AuthConfig_def)
  from 5 have 8: "AuthConfig.Type (Auth kerberos_config)
       \<notin> {''basic'', ''api_key'', ''personal_token'', ''oauth2''}"
    by simp
  from unknown_auth_kind_passes [OF 1 2 _ 8] 4
  have "ProviderConfig_Validate kerberos_config = None" by simp
  with 1 2 3 4 5 6 7 show ?thesis by simp
qed

lemma exists_loop_iff:
  "exists_loop ps fp \<longleftrightarrow> ProviderConfig.Name fp \<in> ProviderConfig.Name ` set ps"
  by (induction ps) auto

lemma merge_loop_added:
  "\<exists>added. merge_loop acc fps = acc @ added \<and> subseq added fps
     \<and> (\<forall>fp\<in>set added. ProviderConfig.Name fp \<notin> ProviderConfig.Name ` set acc)"
proof (induction fps arbitrary: acc)
  case Nil
  then show ?case by simp
next
  case (Cons fp fps)
  show ?case
  proof (cases "exists_loop acc fp")
    case True
    from Cons.IH [of acc] obtain added where "merge_loop acc fps = acc @ added"
      "subseq added fps"
      "\<forall>fp\<in>set added. ProviderConfig.Name fp \<notin> ProviderConfig.Name ` set acc"
      by blast
    with True show ?thesis by (intro exI[of _ added]) (simp add: list_emb_Cons)
  next
    case False
    from Cons.IH [of "acc @ [fp]"] obtain added where
      a: "merge_loop (acc @ [fp]) fps = (acc @ [fp]) @ added" "subseq added fps"
      "\<forall>x\<in>set added. ProviderConfig.Name x \<notin> ProviderConfig.Name ` set (acc @ [fp])"
      by blast
    from False have "ProviderConfig.Name fp \<notin> ProviderConfig.Name ` set acc"
      by (simp add: exists_loop_iff)
    with a False show ?thesis by (intro exI[of _ "fp # added"]) auto
  qed
qed

lemma Load_Providers:
  assumes "Load getenv v = Inr cfg"
  shows "Providers cfg = merge_loop (env_providers getenv) (file_providers v)"
  using assms
  by (auto simp: Load_def file_providers_def Let_def
      split: read_result.splits if_splits sum.splits)

lemma GetProvider_loop_append:
  "ProviderConfig.Name ep = n \<Longrightarrow> Config_GetProvider_loop ps n = Some ep \<Longrightarrow>
   Config_GetProvider_loop (ps @ qs) n = Some ep"
  by (induction ps) auto

text \<open>The environment's entries have the names jira, wiki and gitlab, each at most once.\<close>

lemma env_providers_distinct: "distinct (map ProviderConfig.Name (env_providers getenv))"
  by (simp add: env_providers_def)

lemma GetProvider_loop_distinct:
  "distinct (map ProviderConfig.Name ps) \<Longrightarrow> ep \<in> set ps \<Longrightarrow>
   Config_GetProvider_loop ps (ProviderConfig.Name ep) = Some ep"
  by (induction ps) (auto simp: image_iff)

lemma filter_name_distinct:
  "distinct (map ProviderConfig.Name ps) \<Longrightarrow> ep \<in> set ps \<Longrightarrow>
   filter (\<lambda>p. ProviderConfig.Name p = ProviderConfig.Name ep) ps = [ep]"
  by (induction ps) (auto simp: image_iff filter_empty_conv)

text \<open>
  C6. When \<open>Load\<close> returns a configuration, its provider list is the
  environment's entries, as built from the environment, followed by entries
  taken whole from the file, in the file's order. No entry taken from the file
  bears the name of an environment entry. For the name of an environment entry,
  the list holds that entry and no other, and a lookup by the name returns it.
\<close>

theorem Load_env_precedence:
  assumes "Load getenv v = Inr cfg"
  shows "\<exists>added. Providers cfg = env_providers getenv @ added
     \<and> subseq added (file_providers v)
     \<and> (\<forall>fp\<in>set added.
          ProviderConfig.Name fp \<notin> ProviderConfig.Name ` set (env_providers getenv))
     \<and> (\<forall>ep\<in>set (env_providers getenv).
          Config_GetProvider cfg (ProviderConfig.Name ep) = Some ep
          \<and> filter (\<lambda>p. ProviderConfig.Name p = ProviderConfig.Name ep) (Providers cfg)
              = [ep])"
proof -
  from merge_loop_added [of "env_providers getenv" "file_providers v"] obtain added where
    a: "merge_loop (env_providers getenv) (file_providers v) = env_providers getenv @ added"
    and s: "subseq added (file_providers v)"
    and n: "\<forall>fp\<in>set added.
          ProviderConfig.Name fp \<notin> ProviderConfig.Name ` set (env_providers getenv)"
    by blast
  have p: "Providers cfg = env_providers getenv @ added"
    using Load_Providers [OF assms] a by simp
  have l: "\<forall>ep\<in>set (env_providers getenv).
          Config_GetProvider cfg (ProviderConfig.Name ep) = Some ep
          \<and> filter (\<lambda>p. ProviderConfig.Name p = ProviderConfig.Name ep) (Providers cfg)
              = [ep]"
  proof
    fix ep assume ep: "ep \<in> set (env_providers getenv)"
    have 1: "Config_GetProvider cfg (ProviderConfig.Name ep) = Some ep"
      using GetProvider_loop_append
        [OF refl GetProvider_loop_distinct [OF env_providers_distinct ep], of added]
      by (simp add: Config_GetProvider_def p)
    have "filter (\<lambda>p. ProviderConfig.Name p = ProviderConfig.Name ep) added = []"
      using n ep by (auto simp: filter_empty_conv)
    moreover have "filter (\<lambda>p. ProviderConfig.Name p = ProviderConfig.Name ep)
        (env_providers getenv) = [ep]"
      using filter_name_distinct [OF env_providers_distinct ep] .
    ultimately have 2:
      "filter (\<lambda>p. ProviderConfig.Name p = ProviderConfig.Name ep) (Providers cfg) = [ep]"
      by (simp add: p)
    from 1 2 show "Config_GetProvider cfg (ProviderConfig.Name ep) = Some ep
          \<and> filter (\<lambda>p. ProviderConfig.Name p = ProviderConfig.Name ep) (Providers cfg)
              = [ep]" ..
  qed
  from p s n l show ?thesis by blast
qed

lemma env_providers_jira_env: "env_providers jira_env = [jira_config]"
  by (simp add: env_providers_def jira_env_def jira_config_def)

lemma Load_jira_env:
  "Load jira_env test_viper
     = Inr \<lparr>Server = test_server, Providers = [jira_config, file_custom]\<rparr>"
  by (simp add: Load_def env_providers_jira_env test_viper_def getEnvOrDefault_def
      test_server_def jira_config_def file_jira_def file_custom_def)
    (simp add: jira_env_def)

text \<open>
  The environment configures Jira; the file has an entry named \<^verbatim>\<open>jira\<close>
  with other fields and two entries named \<^verbatim>\<open>custom\<close>. The result holds the
  environment's Jira entry and the first \<^verbatim>\<open>custom\<close> entry.
\<close>

theorem Load_env_precedence_witness:
  "Load jira_env test_viper
     = Inr \<lparr>Server = test_server, Providers = [jira_config, file_custom]\<rparr>
   \<and> env_providers jira_env = [jira_config]
   \<and> file_providers test_viper = [file_jira, file_custom, file_custom]
   \<and> Config_GetProvider \<lparr>Server = test_server, Providers = [jira_config, file_custom]\<rparr>
        ''jira'' = Some jira_config"
proof -
  have f: "file_providers test_viper = [file_jira, file_custom, file_custom]"
    by (simp add: file_providers_def test_viper_def)
  from Load_env_precedence [OF Load_jira_env]
  have "\<forall>ep\<in>set (env_providers jira_env).
          Config_GetProvider \<lparr>Server = test_server, Providers = [jira_config, file_custom]\<rparr>
            (ProviderConfig.Name ep) = Some ep"
    by blast
  then have "Config_GetProvider \<lparr>Server = test_server, Providers = [jira_config, file_custom]\<rparr>
        ''jira'' = Some jira_config"
    by (simp add: env_providers_jira_env) (simp add: jira_config_def)
  with Load_jira_env env_providers_jira_env f show ?thesis by blast
qed

end
